theory Spec2Isabelle
  imports Complex_Main "HOL-Library.Word"
begin

section \<open>Data model of \<open>perfK0sResolution.cxx\<close>\<close>

text \<open>
  The struct \<open>perfK0sResolution\<close> selects K0-short candidates (V0s) and fills histograms.
  Its numeric columns and cuts are C++ \<open>float\<close>s.

  The values that \<open>acceptV0\<close> compares (rapidity, radius, distance over momentum, the
  TPC pion deviations, and the five cuts they are compared with) are of type \<open>cfloat\<close>:
  a number or NaN. Every test of \<open>acceptV0\<close> rejects when a strict comparison holds, and
  a comparison with a NaN operand is false, so a NaN is an input on which the function
  behaves differently from any number. Infinities compare like numbers beyond every
  finite one and do not add a case; they and rounding are outside the model.

  The other float columns are \<^typ>\<open>real\<close>: they are handed to \<open>fill\<close> as they are, or
  compared in the filters, which keep a row when a strict comparison holds. The one place
  where the loop bodies compute with them, a division whose divisor may be zero, is made
  explicit by \<open>fdiv\<close> below. Counts (inner-barrel clusters, crossed rows) are
  \<^typ>\<open>nat\<close>, the tracking PID hypothesis is the \<open>uint32_t\<close> of the source, the
  \<open>Configurable<int>\<close> switches and PDG codes are \<^typ>\<open>int\<close>.
\<close>

datatype cfloat = Num real | NaN

text \<open>
  The comparisons \<open><\<close>, \<open>>\<close>, \<open><=\<close> and \<open>>=\<close> of two floats: false as soon as one
  operand is NaN.
\<close>

fun flt :: "cfloat \<Rightarrow> cfloat \<Rightarrow> bool" where
  "flt (Num x) (Num y) = (x < y)"
| "flt _ _ = False"

definition fgt :: "cfloat \<Rightarrow> cfloat \<Rightarrow> bool" where
  "fgt a b = flt b a"

fun fle :: "cfloat \<Rightarrow> cfloat \<Rightarrow> bool" where
  "fle (Num x) (Num y) = (x \<le> y)"
| "fle _ _ = False"

definition fge :: "cfloat \<Rightarrow> cfloat \<Rightarrow> bool" where
  "fge a b = fle b a"

text \<open>The absolute value (\<open>TMath::Abs\<close>, \<open>abs\<close>) and the product: NaN gives NaN.\<close>

fun fabs :: "cfloat \<Rightarrow> cfloat" where
  "fabs (Num x) = Num \<bar>x\<bar>"
| "fabs NaN = NaN"

fun fmul :: "cfloat \<Rightarrow> cfloat \<Rightarrow> cfloat" where
  "fmul (Num x) (Num y) = Num (x * y)"
| "fmul _ _ = NaN"

text \<open>A generated (Monte-Carlo) particle: \<open>aod::McParticles\<close> row, the columns that are read.\<close>

record mcparticle =
  pdgCode :: int
  mc_px :: real
  mc_py :: real
  mc_pz :: real
  mc_pt :: real

text \<open>
  A daughter track: a row of \<open>PIDTracks\<close>, in truth mode joined with \<open>aod::McTrackLabels\<close>.
  \<open>track_mcParticle\<close> is the label: \<open>has_mcParticle()\<close> is \<open>track_mcParticle t \<noteq> None\<close>
  and \<open>mcParticle()\<close> its content.
\<close>

record track =
  itsNClsInnerBarrel :: nat
  hasTPC :: bool
  hasTOF :: bool
  hasTRD :: bool
  tpcNSigmaPi :: cfloat
  tpcNClsCrossedRows :: nat
  pidForTracking :: "32 word"
  px :: real
  py :: real
  pz :: real
  track_eta :: real
  tpcInnerParam :: real
  tpcSignal :: real
  track_mcParticle :: "mcparticle option"

text \<open>The collision (event): a row of \<open>SelectedCollisions\<close>.\<close>

record collision =
  posX :: real
  posY :: real
  posZ :: real
  sel8 :: bool

text \<open>
  A V0 candidate: a row of \<open>aod::V0Datas\<close>, in truth mode joined with \<open>aod::McV0Labels\<close>.
  \<open>distovertotmom\<close> is a dynamic column of the table, a function of the primary vertex
  declared outside this file; it is kept as a function of the three coordinates.
  \<open>posTrack\<close> and \<open>negTrack\<close> are the rows that \<open>posTrack_as\<close> and \<open>negTrack_as\<close>
  return; \<open>v0_mcParticle\<close> is the candidate's own label.
\<close>

record v0data =
  yK0Short :: cfloat
  v0radius :: cfloat
  distovertotmom :: "real \<Rightarrow> real \<Rightarrow> real \<Rightarrow> cfloat"
  mK0Short :: real
  pt :: real
  eta :: real
  phi :: real
  positivept :: real
  negativept :: real
  pxpos :: real
  pypos :: real
  pzpos :: real
  pxneg :: real
  pyneg :: real
  pzneg :: real
  dcapostopv :: real
  dcanegtopv :: real
  dcaV0daughters :: real
  v0cosPA :: real
  posTrack :: track
  negTrack :: track
  v0_mcParticle :: "mcparticle option"

text \<open>
  The \<open>Configurable\<close> members of \<open>struct perfK0sResolution\<close> that the processing reads,
  and the two \<open>PROCESS_SWITCH\<close> flags.
\<close>

record perfK0sResolution =
  v0setting_cospa :: real
  v0setting_dcav0dau :: real
  v0setting_dcapostopv :: real
  v0setting_dcanegtopv :: real
  v0setting_radius :: cfloat
  v0setting_rapidity :: cfloat
  v0lifetime :: cfloat
  nMaxTPCNsigma :: cfloat
  itsIbSelectionPos :: int
  itsIbSelectionNeg :: int
  trdSelectionPos :: int
  trdSelectionNeg :: int
  tofSelectionPos :: int
  tofSelectionNeg :: int
  pidHypoPos :: int
  pidHypoNeg :: int
  extraCutTPCClusters :: cfloat
  useMultidimHisto :: bool
  enableTPCPlot :: bool
  computeInvMassFromDaughters :: bool
  cutzvertex :: real
  eventSelection :: bool
  doprocessData :: bool
  doprocessMC :: bool

text \<open>
  The physical constants the file takes from headers outside it,
  \<open>pid_constants::sMasses[PID::K0]\<close> and \<open>o2::constants::physics::MassPionCharged\<close>:
  parameters of the model.
\<close>

record constants =
  sMasses_K0 :: real
  MassPionCharged :: real

section \<open>The acceptance decision \<open>acceptV0\<close>\<close>

text \<open>
  \<open>acceptV0\<close> is a sequence of statements, each of which returns \<open>false\<close>, logs at
  severity \<open>fatal\<close>, or falls through to the next one; the last statement is
  \<open>return true\<close>. A statement's outcome is a \<open>flow\<close>; \<open>run_checks\<close> executes the
  statements in order and stops at the first that does not fall through.

  Modelled from the spec: \<open>LOG(fatal)\<close> belongs to the logging framework, outside this
  file; the specification says of it that the process aborts, so \<open>Fatal\<close> ends the
  function with the logged message and nothing after it runs.
\<close>

datatype flow = Next | Return bool | Fatal string

datatype error = FatalError string

fun run_checks :: "flow list \<Rightarrow> flow" where
  "run_checks [] = Next"
| "run_checks (Next # cs) = run_checks cs"
| "run_checks (Return b # cs) = Return b"
| "run_checks (Fatal m # cs) = Fatal m"

definition finish :: "flow \<Rightarrow> error + bool" where
  "finish f = (case f of Next \<Rightarrow> Inr True | Return b \<Rightarrow> Inr b | Fatal m \<Rightarrow> Inl (FatalError m))"

text \<open>\<open>if (c) { return false; }\<close>\<close>

definition reject_if :: "bool \<Rightarrow> flow" where
  "reject_if c = (if c then Return False else Next)"

text \<open>The \<open>switch\<close> on an inner-barrel selection (lines 149--165 and 166--182).\<close>

definition itsIbSelection :: "int \<Rightarrow> track \<Rightarrow> string \<Rightarrow> flow" where
  "itsIbSelection sel trk msg =
     (if sel = -1 then reject_if (itsNClsInnerBarrel trk > 0)
      else if sel = 0 then Next
      else if sel = 1 then reject_if (itsNClsInnerBarrel trk < 1)
      else Fatal msg)"

text \<open>The \<open>switch\<close> on a TOF selection (lines 199--215 and 216--232).\<close>

definition tofSelection :: "int \<Rightarrow> track \<Rightarrow> string \<Rightarrow> flow" where
  "tofSelection sel trk msg =
     (if sel = -1 then reject_if (hasTOF trk)
      else if sel = 0 then Next
      else if sel = 1 then reject_if (\<not> hasTOF trk)
      else Fatal msg)"

text \<open>The \<open>switch\<close> on a TRD selection (lines 235--251 and 252--268).\<close>

definition trdSelection :: "int \<Rightarrow> track \<Rightarrow> string \<Rightarrow> flow" where
  "trdSelection sel trk msg =
     (if sel = -1 then reject_if (hasTRD trk)
      else if sel = 0 then Next
      else if sel = 1 then reject_if (\<not> hasTRD trk)
      else Fatal msg)"

text \<open>
  The \<open>switch\<close> on a PID hypothesis (lines 271--286 and 287--302); the cases 0 to 4
  share one body, which compares with \<open>static_cast<uint32_t>\<close> of the switch.
\<close>

definition pidHypoSelection :: "int \<Rightarrow> track \<Rightarrow> string \<Rightarrow> flow" where
  "pidHypoSelection sel trk msg =
     (if sel = -1 then Next
      else if sel = 0 \<or> sel = 1 \<or> sel = 2 \<or> sel = 3 \<or> sel = 4
        then reject_if (pidForTracking trk \<noteq> (word_of_int sel :: 32 word))
      else Fatal msg)"

text \<open>The statements of \<open>acceptV0\<close>, lines 136 to 302, in the order of the source.\<close>

definition acceptV0_checks ::
  "perfK0sResolution \<Rightarrow> constants \<Rightarrow> v0data \<Rightarrow> track \<Rightarrow> track \<Rightarrow> collision \<Rightarrow> flow list" where
  "acceptV0_checks cfg k v0 ntrack ptrack coll =
     [ reject_if (fgt (fabs (yK0Short v0)) (v0setting_rapidity cfg)),
       reject_if (flt (v0radius v0) (v0setting_radius cfg)),
       reject_if (fgt (fmul (distovertotmom v0 (posX coll) (posY coll) (posZ coll)) (Num (sMasses_K0 k)))
                      (fmul (Num 2.684) (v0lifetime cfg))),
       itsIbSelection (itsIbSelectionPos cfg) ptrack ''Invalid ITS selection for positive daughter'',
       itsIbSelection (itsIbSelectionNeg cfg) ntrack ''Invalid ITS selection for negative daughter'',
       reject_if (\<not> hasTPC ntrack \<or> \<not> hasTPC ptrack),
       reject_if (fgt (fabs (tpcNSigmaPi ntrack)) (nMaxTPCNsigma cfg)),
       reject_if (fgt (fabs (tpcNSigmaPi ptrack)) (nMaxTPCNsigma cfg)),
       reject_if (flt (Num (real (tpcNClsCrossedRows ntrack))) (extraCutTPCClusters cfg)
                    \<or> flt (Num (real (tpcNClsCrossedRows ptrack))) (extraCutTPCClusters cfg)),
       tofSelection (tofSelectionPos cfg) ptrack ''Invalid TOF selection for positive daughter'',
       tofSelection (tofSelectionNeg cfg) ntrack ''Invalid TOF selection for negative daughter'',
       trdSelection (trdSelectionPos cfg) ptrack ''Invalid TRD selection for positive daughter'',
       trdSelection (trdSelectionNeg cfg) ntrack ''Invalid TRD selection for negative daughter'',
       pidHypoSelection (pidHypoPos cfg) ptrack ''Invalid PID selection for positive daughter'',
       pidHypoSelection (pidHypoNeg cfg) ntrack ''Invalid PID selection for negative daughter'' ]"

definition acceptV0 ::
  "perfK0sResolution \<Rightarrow> constants \<Rightarrow> v0data \<Rightarrow> track \<Rightarrow> track \<Rightarrow> collision \<Rightarrow> error + bool" where
  "acceptV0 cfg k v0 ntrack ptrack coll = finish (run_checks (acceptV0_checks cfg k v0 ntrack ptrack coll))"

section \<open>Pre-filters\<close>

text \<open>The three \<open>Filter\<close> members, lines 307 to 314; \<open>nabs\<close> is the absolute value.\<close>

definition v0Filter :: "perfK0sResolution \<Rightarrow> v0data \<Rightarrow> bool" where
  "v0Filter cfg v0 =
     (\<bar>dcapostopv v0\<bar> > v0setting_dcapostopv cfg \<and>
      \<bar>dcanegtopv v0\<bar> > v0setting_dcanegtopv cfg \<and>
      dcaV0daughters v0 < v0setting_dcav0dau cfg \<and>
      v0cosPA v0 > v0setting_cospa cfg)"

definition eventFilter :: "perfK0sResolution \<Rightarrow> collision \<Rightarrow> bool" where
  "eventFilter cfg coll = (eventSelection cfg \<and> sel8 coll = True)"

definition posZFilter :: "perfK0sResolution \<Rightarrow> collision \<Rightarrow> bool" where
  "posZFilter cfg coll = (\<bar>posZ coll\<bar> < cutzvertex cfg)"

text \<open>
  Modelled from the spec: \<open>soa::Filtered\<close> belongs to the framework, outside this file.
  The specification says of it that the candidate and event collections are pre-filtered
  before iteration: a \<open>Filtered\<close> table holds the rows that satisfy every \<open>Filter\<close>
  declared on its columns, in their order.
\<close>

definition Filtered_V0Datas :: "perfK0sResolution \<Rightarrow> v0data list \<Rightarrow> v0data list" where
  "Filtered_V0Datas cfg fullV0s = filter (v0Filter cfg) fullV0s"

definition Filtered_SelectedCollisions :: "perfK0sResolution \<Rightarrow> collision list \<Rightarrow> collision list" where
  "Filtered_SelectedCollisions cfg colls = filter (\<lambda>c. eventFilter cfg c \<and> posZFilter cfg c) colls"

section \<open>Histograms\<close>

text \<open>The histograms of the two registries, by the names given to \<open>HIST\<close>.\<close>

datatype hist =
  h1_events
| h2_massPosPtRes | h2_massNegPtRes
| h2_genPtPosPtRes | h2_genPxPosPxRes | h2_genPyPosPyRes | h2_genPzPosPzRes
| h2_genPtNegPtRes | h2_genPxNegPxRes | h2_genPyNegPyRes | h2_genPzNegPzRes
| h2_masspT | h2_masseta | h2_massphi
| thn_mass
| h3_tpc_vs_pid_hypothesis

text \<open>
  A value handed to \<open>fill\<close>. \<open>None\<close> is the outcome of a division whose divisor is
  zero (in the source an infinity or a NaN, which the division produces without any
  test); every other value is \<open>Some\<close> number.
\<close>

type_synonym fval = "real option"

definition fdiv :: "real \<Rightarrow> real \<Rightarrow> fval" where
  "fdiv a b = (if b = 0 then None else Some (a / b))"

definition fsub :: "fval \<Rightarrow> fval \<Rightarrow> fval" where
  "fsub a b = (case a of None \<Rightarrow> None | Some x \<Rightarrow> (case b of None \<Rightarrow> None | Some y \<Rightarrow> Some (x - y)))"

text \<open>
  Modelled from the spec: \<open>HistogramRegistry\<close> belongs to the framework, outside this
  file. The specification says of it that the histogram set is mutated exclusively by
  append-only fill operations and never read back, so a registry is the sequence of its
  fills.
\<close>

type_synonym registry = "(hist \<times> fval list) list"

record registries =
  rK0sResolution :: registry
  rK0sDauResolution :: registry

definition fill :: "hist \<Rightarrow> fval list \<Rightarrow> registry \<Rightarrow> registry" where
  "fill h xs r = r @ [(h, xs)]"

definition fill_K0sResolution :: "hist \<Rightarrow> fval list \<Rightarrow> registries \<Rightarrow> registries" where
  "fill_K0sResolution h xs regs = regs\<lparr>rK0sResolution := fill h xs (rK0sResolution regs)\<rparr>"

definition fill_K0sDauResolution :: "hist \<Rightarrow> fval list \<Rightarrow> registries \<Rightarrow> registries" where
  "fill_K0sDauResolution h xs regs = regs\<lparr>rK0sDauResolution := fill h xs (rK0sDauResolution regs)\<rparr>"

text \<open>The axes of \<open>init\<close>; the last three are the axes written in place for the TPC plot.\<close>

datatype axis =
  eventAxis | mAxis | pTAxis | pTResAxis | pTResRelAxis | invpTResAxis
| etaAxis | etaAxisPosD | etaAxisNegD | phiAxis | trueK0Axis
| tpcMomentumAxis | tpcSignalAxis | pidHypothesisAxis

text \<open>\<open>init\<close>, lines 77 to 130: the histograms each registry holds, with their axes.\<close>

definition init_K0sResolution :: "perfK0sResolution \<Rightarrow> (hist \<times> axis list) list" where
  "init_K0sResolution cfg =
     [(h1_events, [eventAxis])] @
     [(h2_masspT, [mAxis, pTAxis]), (h2_masseta, [mAxis, etaAxis]), (h2_massphi, [mAxis, phiAxis])] @
     (if useMultidimHisto cfg then
        (if doprocessMC cfg
         then [(thn_mass, [mAxis, pTAxis, etaAxis, phiAxis, etaAxisPosD, etaAxisNegD,
                           invpTResAxis, invpTResAxis, trueK0Axis])]
         else [(thn_mass, [mAxis, pTAxis, etaAxis, phiAxis, etaAxisPosD, etaAxisNegD])])
      else [])"

definition init_K0sDauResolution :: "perfK0sResolution \<Rightarrow> (hist \<times> axis list) list" where
  "init_K0sDauResolution cfg =
     (if doprocessMC cfg then
        [(h2_massPosPtRes, [mAxis, pTResAxis]), (h2_massNegPtRes, [mAxis, pTResAxis]),
         (h2_genPtPosPtRes, [pTResRelAxis, pTAxis]), (h2_genPxPosPxRes, [pTResRelAxis, pTAxis]),
         (h2_genPyPosPyRes, [pTResRelAxis, pTAxis]), (h2_genPzPosPzRes, [pTResRelAxis, pTAxis]),
         (h2_genPtNegPtRes, [pTResRelAxis, pTAxis]), (h2_genPxNegPxRes, [pTResRelAxis, pTAxis]),
         (h2_genPyNegPyRes, [pTResRelAxis, pTAxis]), (h2_genPzNegPzRes, [pTResRelAxis, pTAxis])]
      else []) @
     (if enableTPCPlot cfg
      then [(h3_tpc_vs_pid_hypothesis, [tpcMomentumAxis, tpcSignalAxis, pidHypothesisAxis])]
      else [])"

section \<open>Derived quantities and the two process functions\<close>

text \<open>
  Modelled from the spec: \<open>RecoDecay::m\<close> is defined in \<open>Common/Core/RecoDecay.h\<close>,
  which is not among the sources. The specification says of the recomputed mass:
  \<open>m = sqrt((E1+E2)^2 - |p1+p2|^2)\<close> with \<open>E_i = sqrt(|p_i|^2 + m_i^2)\<close>. The two
  arguments are the source's two arrays: the daughters' three-momenta and their masses.
\<close>

definition RecoDecay_e :: "real \<times> real \<times> real \<Rightarrow> real \<Rightarrow> real" where
  "RecoDecay_e p m = (case p of (x, y, z) \<Rightarrow> sqrt (x\<^sup>2 + y\<^sup>2 + z\<^sup>2 + m\<^sup>2))"

definition RecoDecay_m :: "(real \<times> real \<times> real) \<times> (real \<times> real \<times> real) \<Rightarrow> real \<times> real \<Rightarrow> real" where
  "RecoDecay_m arrMom arrMass =
     (case arrMom of ((x1, y1, z1), (x2, y2, z2)) \<Rightarrow>
      case arrMass of (m1, m2) \<Rightarrow>
        sqrt ((RecoDecay_e (x1, y1, z1) m1 + RecoDecay_e (x2, y2, z2) m2)\<^sup>2
              - ((x1 + x2)\<^sup>2 + (y1 + y2)\<^sup>2 + (z1 + z2)\<^sup>2)))"

text \<open>
  The local variable \<open>mass\<close>: lines 328 to 333 of \<open>processData\<close> and, with the same
  text, lines 368 to 373 of \<open>processMC\<close>.
\<close>

definition candidate_mass :: "perfK0sResolution \<Rightarrow> constants \<Rightarrow> v0data \<Rightarrow> track \<Rightarrow> track \<Rightarrow> real" where
  "candidate_mass cfg k v0 ptrack ntrack =
     (if computeInvMassFromDaughters cfg
      then RecoDecay_m ((px ptrack, py ptrack, pz ptrack), (px ntrack, py ntrack, pz ntrack))
                       (MassPionCharged k, MassPionCharged k)
      else mK0Short v0)"

text \<open>
  The body of the candidate loop of \<open>processData\<close>, lines 322 to 344. When \<open>acceptV0\<close>
  takes the fatal path the result is \<open>Inl\<close>: the error, with the registries as they are
  at that moment.
\<close>

definition processData_v0 ::
  "perfK0sResolution \<Rightarrow> constants \<Rightarrow> collision \<Rightarrow> v0data \<Rightarrow> registries \<Rightarrow> (error \<times> registries) + registries" where
  "processData_v0 cfg k coll v0 regs =
     (let regs = fill_K0sResolution h1_events [Some 1.5] regs in
      case acceptV0 cfg k v0 (negTrack v0) (posTrack v0) coll of
        Inl e \<Rightarrow> Inl (e, regs)
      | Inr accepted \<Rightarrow>
          if \<not> accepted then Inr regs
          else
            let mass = candidate_mass cfg k v0 (posTrack v0) (negTrack v0);
                regs = fill_K0sResolution h2_masspT [Some mass, Some (pt v0)] regs;
                regs = fill_K0sResolution h2_masseta [Some mass, Some (eta v0)] regs;
                regs = fill_K0sResolution h2_massphi [Some mass, Some (phi v0)] regs;
                regs = (if useMultidimHisto cfg
                        then fill_K0sResolution thn_mass
                               [Some mass, Some (pt v0), Some (eta v0), Some (phi v0),
                                Some (track_eta (posTrack v0)), Some (track_eta (negTrack v0))] regs
                        else regs);
                regs = (if enableTPCPlot cfg
                        then fill_K0sDauResolution h3_tpc_vs_pid_hypothesis
                               [Some (- tpcInnerParam (negTrack v0)), Some (tpcSignal (negTrack v0)),
                                Some (real (unat (pidForTracking (negTrack v0))))]
                               (fill_K0sDauResolution h3_tpc_vs_pid_hypothesis
                                  [Some (tpcInnerParam (posTrack v0)), Some (tpcSignal (posTrack v0)),
                                   Some (real (unat (pidForTracking (posTrack v0))))] regs)
                        else regs)
            in Inr regs)"

text \<open>The \<open>for\<close> loop over the candidates: the body runs in order, a fatal error ends it.\<close>

fun for_each_v0 ::
  "(v0data \<Rightarrow> registries \<Rightarrow> (error \<times> registries) + registries) \<Rightarrow> v0data list \<Rightarrow> registries \<Rightarrow> (error \<times> registries) + registries" where
  "for_each_v0 body [] regs = Inr regs"
| "for_each_v0 body (v0 # fullV0s) regs =
     (case body v0 regs of Inl e \<Rightarrow> Inl e | Inr regs' \<Rightarrow> for_each_v0 body fullV0s regs')"

definition processData ::
  "perfK0sResolution \<Rightarrow> constants \<Rightarrow> collision \<Rightarrow> v0data list \<Rightarrow> registries \<Rightarrow> (error \<times> registries) + registries" where
  "processData cfg k coll fullV0s regs =
     for_each_v0 (processData_v0 cfg k coll) fullV0s (fill_K0sResolution h1_events [Some 0.5] regs)"

text \<open>The body of the candidate loop of \<open>processMC\<close>, lines 354 to 395.\<close>

definition processMC_v0 ::
  "perfK0sResolution \<Rightarrow> constants \<Rightarrow> collision \<Rightarrow> v0data \<Rightarrow> registries \<Rightarrow> (error \<times> registries) + registries" where
  "processMC_v0 cfg k coll v0 regs =
     (let regs = fill_K0sResolution h1_events [Some 1.5] regs in
      case acceptV0 cfg k v0 (negTrack v0) (posTrack v0) coll of
        Inl e \<Rightarrow> Inl (e, regs)
      | Inr accepted \<Rightarrow>
          if \<not> accepted then Inr regs
          else (case track_mcParticle (posTrack v0) of
            None \<Rightarrow> Inr regs
          | Some posMc \<Rightarrow>
            (case track_mcParticle (negTrack v0) of
              None \<Rightarrow> Inr regs
            | Some negMc \<Rightarrow>
                if pdgCode posMc \<noteq> 211 \<or> pdgCode negMc \<noteq> -211 then Inr regs
                else
                  let mass = candidate_mass cfg k v0 (posTrack v0) (negTrack v0);
                      isTrueK0s = (case v0_mcParticle v0 of None \<Rightarrow> False | Some m \<Rightarrow> pdgCode m = 310);
                      regs = fill_K0sDauResolution h2_genPtPosPtRes
                               [fdiv (positivept v0 - mc_pt posMc) (mc_pt posMc), Some (mc_pt posMc)] regs;
                      regs = fill_K0sDauResolution h2_genPxPosPxRes
                               [fdiv (pxpos v0 - mc_px posMc) (mc_px posMc), Some (mc_px posMc)] regs;
                      regs = fill_K0sDauResolution h2_genPyPosPyRes
                               [fdiv (pypos v0 - mc_py posMc) (mc_py posMc), Some (mc_py posMc)] regs;
                      regs = fill_K0sDauResolution h2_genPzPosPzRes
                               [fdiv (pzpos v0 - mc_pz posMc) (mc_pz posMc), Some (mc_pz posMc)] regs;
                      regs = fill_K0sDauResolution h2_genPtNegPtRes
                               [fdiv (negativept v0 - mc_pt negMc) (mc_pt negMc), Some (mc_pt negMc)] regs;
                      regs = fill_K0sDauResolution h2_genPxNegPxRes
                               [fdiv (pxneg v0 - mc_px negMc) (mc_px negMc), Some (mc_px negMc)] regs;
                      regs = fill_K0sDauResolution h2_genPyNegPyRes
                               [fdiv (pyneg v0 - mc_py negMc) (mc_py negMc), Some (mc_py negMc)] regs;
                      regs = fill_K0sDauResolution h2_genPzNegPzRes
                               [fdiv (pzneg v0 - mc_pz negMc) (mc_pz negMc), Some (mc_pz negMc)] regs;
                      regs = fill_K0sDauResolution h2_massPosPtRes
                               [Some mass, Some (positivept v0 - mc_pt posMc)] regs;
                      regs = fill_K0sDauResolution h2_massNegPtRes
                               [Some mass, Some (negativept v0 - mc_pt negMc)] regs;
                      regs = fill_K0sResolution h2_masspT [Some mass, Some (pt v0)] regs;
                      regs = fill_K0sResolution h2_masseta [Some mass, Some (eta v0)] regs;
                      regs = fill_K0sResolution h2_massphi [Some mass, Some (phi v0)] regs;
                      regs = (if useMultidimHisto cfg
                              then fill_K0sResolution thn_mass
                                     [Some mass, Some (pt v0), Some (eta v0), Some (phi v0),
                                      Some (track_eta (posTrack v0)), Some (track_eta (negTrack v0)),
                                      fsub (fdiv 1 (positivept v0)) (fdiv 1 (mc_pt posMc)),
                                      fsub (fdiv 1 (negativept v0)) (fdiv 1 (mc_pt negMc)),
                                      Some (of_bool isTrueK0s)] regs
                              else regs)
                  in Inr regs)))"

definition processMC ::
  "perfK0sResolution \<Rightarrow> constants \<Rightarrow> collision \<Rightarrow> v0data list \<Rightarrow> registries \<Rightarrow> (error \<times> registries) + registries" where
  "processMC cfg k coll fullV0s regs =
     for_each_v0 (processMC_v0 cfg k coll) fullV0s (fill_K0sResolution h1_events [Some 0.5] regs)"

section \<open>Notions used to state the properties\<close>

text \<open>
  Statement number \<open>i\<close> of a sequence of statements (counted from 0) is executed when
  every statement before it fell through.
\<close>

definition reaches :: "nat \<Rightarrow> flow list \<Rightarrow> bool" where
  "reaches i cs = (run_checks (take i cs) = Next)"

text \<open>The number of fills a registry holds for one histogram.\<close>

definition count_fills :: "hist \<Rightarrow> registry \<Rightarrow> nat" where
  "count_fills h r = length (filter (\<lambda>f. fst f = h) r)"

text \<open>No fill of the registry carries the outcome of a division by zero.\<close>

definition all_defined :: "registry \<Rightarrow> bool" where
  "all_defined r = list_all (\<lambda>f. list_all (\<lambda>x. x \<noteq> None) (snd f)) r"

text \<open>The candidate is accepted by \<open>acceptV0\<close>, as the two loops call it.\<close>

definition accepted :: "perfK0sResolution \<Rightarrow> constants \<Rightarrow> collision \<Rightarrow> v0data \<Rightarrow> bool" where
  "accepted cfg k coll v0 = (acceptV0 cfg k v0 (negTrack v0) (posTrack v0) coll = Inr True)"

text \<open>
  Both daughters carry a truth link, to a particle of PDG code 211 for the positive and
  -211 for the negative daughter: the tests of lines 359 to 367 all fall through.
\<close>

definition daughters_matched :: "v0data \<Rightarrow> bool" where
  "daughters_matched v0 =
     (case track_mcParticle (posTrack v0) of
        None \<Rightarrow> False
      | Some posMc \<Rightarrow>
          (case track_mcParticle (negTrack v0) of
             None \<Rightarrow> False
           | Some negMc \<Rightarrow> pdgCode posMc = 211 \<and> pdgCode negMc = -211))"

text \<open>The number of fills the two registries together hold for one histogram.\<close>

definition total_fills :: "hist \<Rightarrow> registries \<Rightarrow> nat" where
  "total_fills h regs = count_fills h (rK0sResolution regs) + count_fills h (rK0sDauResolution regs)"

text \<open>Every switch of the configuration has one of its documented values.\<close>

definition valid_switches :: "perfK0sResolution \<Rightarrow> bool" where
  "valid_switches cfg =
     (itsIbSelectionPos cfg \<in> {-1, 0, 1} \<and> itsIbSelectionNeg cfg \<in> {-1, 0, 1} \<and>
      tofSelectionPos cfg \<in> {-1, 0, 1} \<and> tofSelectionNeg cfg \<in> {-1, 0, 1} \<and>
      trdSelectionPos cfg \<in> {-1, 0, 1} \<and> trdSelectionNeg cfg \<in> {-1, 0, 1} \<and>
      pidHypoPos cfg \<in> {-1, 0, 1, 2, 3, 4} \<and> pidHypoNeg cfg \<in> {-1, 0, 1, 2, 3, 4})"

text \<open>
  The number of fills a histogram receives for one accepted candidate in data mode, and
  for one accepted candidate with matched daughters in truth mode, the tick of the event
  counter apart.
\<close>

definition data_fills_per_accepted :: "perfK0sResolution \<Rightarrow> hist \<Rightarrow> nat" where
  "data_fills_per_accepted cfg h =
     (if h \<in> {h2_masspT, h2_masseta, h2_massphi} then 1
      else if h = thn_mass \<and> useMultidimHisto cfg then 1
      else if h = h3_tpc_vs_pid_hypothesis \<and> enableTPCPlot cfg then 2
      else 0)"

definition mc_fills_per_accepted :: "perfK0sResolution \<Rightarrow> hist \<Rightarrow> nat" where
  "mc_fills_per_accepted cfg h =
     (if h \<in> {h2_masspT, h2_masseta, h2_massphi, h2_massPosPtRes, h2_massNegPtRes,
               h2_genPtPosPtRes, h2_genPxPosPxRes, h2_genPyPosPyRes, h2_genPzPosPzRes,
               h2_genPtNegPtRes, h2_genPxNegPxRes, h2_genPyNegPyRes, h2_genPzNegPzRes} then 1
      else if h = thn_mass \<and> useMultidimHisto cfg then 1
      else 0)"

text \<open>The histograms that \<open>init\<close> registers with the mass axis as their first axis.\<close>

definition mass_histograms :: "hist set" where
  "mass_histograms = {h2_masspT, h2_masseta, h2_massphi, thn_mass, h2_massPosPtRes, h2_massNegPtRes}"

section \<open>Concrete inputs\<close>

text \<open>The default values of the configurables, lines 46 to 72 and the two process switches.\<close>

definition default_config :: perfK0sResolution where
  "default_config =
     \<lparr> v0setting_cospa = 0.995, v0setting_dcav0dau = 1, v0setting_dcapostopv = 0.1,
       v0setting_dcanegtopv = 0.1, v0setting_radius = Num 0.9, v0setting_rapidity = Num 0.5,
       v0lifetime = Num 3, nMaxTPCNsigma = Num 10,
       itsIbSelectionPos = 0, itsIbSelectionNeg = 0, trdSelectionPos = 0, trdSelectionNeg = 0,
       tofSelectionPos = 0, tofSelectionNeg = 0, pidHypoPos = -1, pidHypoNeg = -1,
       extraCutTPCClusters = Num (-1),
       useMultidimHisto = False, enableTPCPlot = False, computeInvMassFromDaughters = False,
       cutzvertex = 10, eventSelection = True, doprocessData = True, doprocessMC = False \<rparr>"

definition example_constants :: constants where
  "example_constants = \<lparr> sMasses_K0 = 0.497611, MassPionCharged = 0.13957 \<rparr>"

definition example_collision :: collision where
  "example_collision = \<lparr> posX = 0, posY = 0, posZ = 0, sel8 = True \<rparr>"

definition pion_plus :: mcparticle where
  "pion_plus = \<lparr> pdgCode = 211, mc_px = 0.6, mc_py = 0.8, mc_pz = 0.5, mc_pt = 1 \<rparr>"

definition pion_minus :: mcparticle where
  "pion_minus = \<lparr> pdgCode = -211, mc_px = -0.6, mc_py = 0.8, mc_pz = 0.25, mc_pt = 1 \<rparr>"

definition example_posTrack :: track where
  "example_posTrack =
     \<lparr> itsNClsInnerBarrel = 2, hasTPC = True, hasTOF = True, hasTRD = False, tpcNSigmaPi = Num 0,
       tpcNClsCrossedRows = 100, pidForTracking = 2, px = 0.5, py = 1, pz = 0.5,
       track_eta = 0.25, tpcInnerParam = 1.25, tpcSignal = 50, track_mcParticle = Some pion_plus \<rparr>"

definition example_negTrack :: track where
  "example_negTrack =
     \<lparr> itsNClsInnerBarrel = 0, hasTPC = True, hasTOF = False, hasTRD = False, tpcNSigmaPi = Num (-1),
       tpcNClsCrossedRows = 100, pidForTracking = 2, px = -0.5, py = 1, pz = 0.25,
       track_eta = 0.125, tpcInnerParam = 1, tpcSignal = 60, track_mcParticle = Some pion_minus \<rparr>"

text \<open>
  A candidate inside every cut of the default configuration: rapidity 0.1, radius 1,
  distance over momentum 2, no truth link of its own.
\<close>

definition example_v0 :: v0data where
  "example_v0 =
     \<lparr> yK0Short = Num 0.1, v0radius = Num 1, distovertotmom = (\<lambda>x y z. Num 2), mK0Short = 0.5,
       pt = 2, eta = 0.25, phi = 1, positivept = 1.25, negativept = 1.25,
       pxpos = 0.5, pypos = 1, pzpos = 0.5, pxneg = -0.5, pyneg = 1, pzneg = 0.25,
       dcapostopv = 0.5, dcanegtopv = -0.5, dcaV0daughters = 0.5, v0cosPA = 0.999,
       posTrack = example_posTrack, negTrack = example_negTrack, v0_mcParticle = None \<rparr>"

definition empty_registries :: registries where
  "empty_registries = \<lparr> rK0sResolution = [], rK0sDauResolution = [] \<rparr>"

text \<open>
  The default configuration with six of its switches set: inner barrel required on the
  positive and forbidden on the negative daughter, TOF required on the positive and
  forbidden on the negative daughter, TRD forbidden on the negative daughter, and the
  pion hypothesis (index 2) required in the tracking of the positive daughter.
\<close>

definition witness_config :: perfK0sResolution where
  "witness_config = default_config\<lparr>itsIbSelectionPos := 1, itsIbSelectionNeg := -1, tofSelectionPos := 1,
                tofSelectionNeg := -1, trdSelectionNeg := -1, pidHypoPos := 2\<rparr>"

section \<open>Properties of \<open>acceptV0\<close>\<close>

lemma run_checks_reject_if: "run_checks (reject_if c # cs) = (if c then Return False else run_checks cs)"
  by (simp add: reject_if_def)

lemma finish_simps: "finish Next = Inr True" "finish (Return b) = Inr b" "finish (Fatal m) = Inl (FatalError m)"
  by (simp_all add: finish_def)

lemma itsIbSelection_valid:
  "sel \<in> {-1, 0, 1} \<Longrightarrow>
   itsIbSelection sel trk msg =
     reject_if (\<not> ((sel = -1 \<longrightarrow> itsNClsInnerBarrel trk = 0) \<and> (sel = 1 \<longrightarrow> itsNClsInnerBarrel trk \<ge> 1)))"
  by (auto simp: itsIbSelection_def reject_if_def)

lemma tofSelection_valid:
  "sel \<in> {-1, 0, 1} \<Longrightarrow>
   tofSelection sel trk msg = reject_if (\<not> ((sel = -1 \<longrightarrow> \<not> hasTOF trk) \<and> (sel = 1 \<longrightarrow> hasTOF trk)))"
  by (auto simp: tofSelection_def reject_if_def)

lemma trdSelection_valid:
  "sel \<in> {-1, 0, 1} \<Longrightarrow>
   trdSelection sel trk msg = reject_if (\<not> ((sel = -1 \<longrightarrow> \<not> hasTRD trk) \<and> (sel = 1 \<longrightarrow> hasTRD trk)))"
  by (auto simp: trdSelection_def reject_if_def)

lemma uint_eq_small: "sel \<in> {0, 1, 2, 3, 4} \<Longrightarrow> (w = (word_of_int sel :: 32 word)) = (uint w = sel)"
proof -
  assume "sel \<in> {0, 1, 2, 3, 4}"
  then have "uint (word_of_int sel :: 32 word) = sel"
    by auto
  then show ?thesis
    by (metis word_of_int_uint)
qed

lemma pidHypoSelection_valid:
  "sel \<in> {-1, 0, 1, 2, 3, 4} \<Longrightarrow>
   pidHypoSelection sel trk msg = reject_if (\<not> (sel \<noteq> -1 \<longrightarrow> uint (pidForTracking trk) = sel))"
  using uint_eq_small[of sel "pidForTracking trk"]
  by (auto simp: pidHypoSelection_def reject_if_def)

lemma reject_if_flow: "reject_if c = Next \<or> reject_if c = Return False"
  by (simp add: reject_if_def)

lemma reject_if_eq_Return [simp]: "(Return False = reject_if c) = c" "(reject_if c = Return False) = c"
  "(reject_if c = Next) = (\<not> c)"
  by (auto simp: reject_if_def)

lemma finish_run_rejects:
  "\<forall>c \<in> set cs. c = Next \<or> c = Return False \<Longrightarrow> finish (run_checks cs) = Inr (Return False \<notin> set cs)"
  by (induction cs rule: run_checks.induct) (auto simp: finish_simps)

lemma fgt_simps [simp]:
  "fgt (Num x) (Num y) = (y < x)" "fgt NaN b = False" "fgt a NaN = False"
proof -
  show "fgt (Num x) (Num y) = (y < x)"
    by (simp add: fgt_def)
  show "fgt NaN b = False"
    by (cases b) (simp_all add: fgt_def)
  show "fgt a NaN = False"
    by (cases a) (simp_all add: fgt_def)
qed

lemma fge_simps [simp]:
  "fge (Num x) (Num y) = (y \<le> x)" "fge NaN b = False" "fge a NaN = False"
proof -
  show "fge (Num x) (Num y) = (y \<le> x)"
    by (simp add: fge_def)
  show "fge NaN b = False"
    by (cases b) (simp_all add: fge_def)
  show "fge a NaN = False"
    by (cases a) (simp_all add: fge_def)
qed

lemma cfloat_irrefl: "\<not> fgt a a" "\<not> flt a a"
  by (cases a, simp_all)+

lemma fle_not_fgt: "fle a b \<Longrightarrow> \<not> fgt a b"
  by (cases a; cases b) simp_all

lemma fge_not_flt: "fge a b \<Longrightarrow> \<not> flt a b"
  by (cases a; cases b) simp_all

text \<open>
  C1, as amended. When the six detector switches are in \<open>{-1, 0, 1}\<close> and the two
  PID-hypothesis switches are in \<open>{-1, 0, 1, 2, 3, 4}\<close>, \<open>acceptV0\<close> returns a truth value,
  never the fatal error. When moreover none of the values it compares is NaN (rapidity,
  radius, distance over momentum, the two TPC pion deviations and the five cuts), it
  returns \<open>true\<close> exactly when all its predicates hold: rapidity, radius and proper decay
  length within their cuts, the inner-barrel constraints of the two switches, both
  daughters with TPC, both TPC pion deviations within the maximum, both crossed-row
  counts at least the configured minimum, the TOF and TRD constraints of the four
  switches, and the PID-hypothesis constraints. For every input, NaN or not, it returns
  \<open>true\<close> exactly when none of its rejection tests holds; a test on a NaN never holds.
  When the crossed-row minimum is a negative number, the crossed-row statement rejects
  no candidate. The order of the statements does not matter for the result: any
  sequence made of the same statements gives the same answer.
\<close>

theorem acceptV0_iff_all_predicates:
  assumes "itsIbSelectionPos cfg \<in> {-1, 0, 1}" and "itsIbSelectionNeg cfg \<in> {-1, 0, 1}"
    and "tofSelectionPos cfg \<in> {-1, 0, 1}" and "tofSelectionNeg cfg \<in> {-1, 0, 1}"
    and "trdSelectionPos cfg \<in> {-1, 0, 1}" and "trdSelectionNeg cfg \<in> {-1, 0, 1}"
    and "pidHypoPos cfg \<in> {-1, 0, 1, 2, 3, 4}" and "pidHypoNeg cfg \<in> {-1, 0, 1, 2, 3, 4}"
  shows "(yK0Short v0 = Num y \<and> v0radius v0 = Num r \<and>
      distovertotmom v0 (posX coll) (posY coll) (posZ coll) = Num d \<and>
      tpcNSigmaPi ntrack = Num sn \<and> tpcNSigmaPi ptrack = Num sp \<and>
      v0setting_rapidity cfg = Num ycut \<and> v0setting_radius cfg = Num rcut \<and>
      v0lifetime cfg = Num lt \<and> nMaxTPCNsigma cfg = Num smax \<and>
      extraCutTPCClusters cfg = Num rows \<longrightarrow>
      acceptV0 cfg k v0 ntrack ptrack coll = Inr (
      \<bar>y\<bar> \<le> ycut \<and>
      r \<ge> rcut \<and>
      d * sMasses_K0 k \<le> 2.684 * lt \<and>
      (itsIbSelectionPos cfg = -1 \<longrightarrow> itsNClsInnerBarrel ptrack = 0) \<and>
      (itsIbSelectionPos cfg = 1 \<longrightarrow> itsNClsInnerBarrel ptrack \<ge> 1) \<and>
      (itsIbSelectionNeg cfg = -1 \<longrightarrow> itsNClsInnerBarrel ntrack = 0) \<and>
      (itsIbSelectionNeg cfg = 1 \<longrightarrow> itsNClsInnerBarrel ntrack \<ge> 1) \<and>
      hasTPC ntrack \<and> hasTPC ptrack \<and>
      \<bar>sn\<bar> \<le> smax \<and>
      \<bar>sp\<bar> \<le> smax \<and>
      real (tpcNClsCrossedRows ntrack) \<ge> rows \<and>
      real (tpcNClsCrossedRows ptrack) \<ge> rows \<and>
      (tofSelectionPos cfg = -1 \<longrightarrow> \<not> hasTOF ptrack) \<and> (tofSelectionPos cfg = 1 \<longrightarrow> hasTOF ptrack) \<and>
      (tofSelectionNeg cfg = -1 \<longrightarrow> \<not> hasTOF ntrack) \<and> (tofSelectionNeg cfg = 1 \<longrightarrow> hasTOF ntrack) \<and>
      (trdSelectionPos cfg = -1 \<longrightarrow> \<not> hasTRD ptrack) \<and> (trdSelectionPos cfg = 1 \<longrightarrow> hasTRD ptrack) \<and>
      (trdSelectionNeg cfg = -1 \<longrightarrow> \<not> hasTRD ntrack) \<and> (trdSelectionNeg cfg = 1 \<longrightarrow> hasTRD ntrack) \<and>
      (pidHypoPos cfg \<noteq> -1 \<longrightarrow> uint (pidForTracking ptrack) = pidHypoPos cfg) \<and>
      (pidHypoNeg cfg \<noteq> -1 \<longrightarrow> uint (pidForTracking ntrack) = pidHypoNeg cfg)))
    \<and> acceptV0 cfg k v0 ntrack ptrack coll = Inr (
      \<not> fgt (fabs (yK0Short v0)) (v0setting_rapidity cfg) \<and>
      \<not> flt (v0radius v0) (v0setting_radius cfg) \<and>
      \<not> fgt (fmul (distovertotmom v0 (posX coll) (posY coll) (posZ coll)) (Num (sMasses_K0 k)))
             (fmul (Num 2.684) (v0lifetime cfg)) \<and>
      (itsIbSelectionPos cfg = -1 \<longrightarrow> itsNClsInnerBarrel ptrack = 0) \<and>
      (itsIbSelectionPos cfg = 1 \<longrightarrow> itsNClsInnerBarrel ptrack \<ge> 1) \<and>
      (itsIbSelectionNeg cfg = -1 \<longrightarrow> itsNClsInnerBarrel ntrack = 0) \<and>
      (itsIbSelectionNeg cfg = 1 \<longrightarrow> itsNClsInnerBarrel ntrack \<ge> 1) \<and>
      hasTPC ntrack \<and> hasTPC ptrack \<and>
      \<not> fgt (fabs (tpcNSigmaPi ntrack)) (nMaxTPCNsigma cfg) \<and>
      \<not> fgt (fabs (tpcNSigmaPi ptrack)) (nMaxTPCNsigma cfg) \<and>
      \<not> flt (Num (real (tpcNClsCrossedRows ntrack))) (extraCutTPCClusters cfg) \<and>
      \<not> flt (Num (real (tpcNClsCrossedRows ptrack))) (extraCutTPCClusters cfg) \<and>
      (tofSelectionPos cfg = -1 \<longrightarrow> \<not> hasTOF ptrack) \<and> (tofSelectionPos cfg = 1 \<longrightarrow> hasTOF ptrack) \<and>
      (tofSelectionNeg cfg = -1 \<longrightarrow> \<not> hasTOF ntrack) \<and> (tofSelectionNeg cfg = 1 \<longrightarrow> hasTOF ntrack) \<and>
      (trdSelectionPos cfg = -1 \<longrightarrow> \<not> hasTRD ptrack) \<and> (trdSelectionPos cfg = 1 \<longrightarrow> hasTRD ptrack) \<and>
      (trdSelectionNeg cfg = -1 \<longrightarrow> \<not> hasTRD ntrack) \<and> (trdSelectionNeg cfg = 1 \<longrightarrow> hasTRD ntrack) \<and>
      (pidHypoPos cfg \<noteq> -1 \<longrightarrow> uint (pidForTracking ptrack) = pidHypoPos cfg) \<and>
      (pidHypoNeg cfg \<noteq> -1 \<longrightarrow> uint (pidForTracking ntrack) = pidHypoNeg cfg))
    \<and> (extraCutTPCClusters cfg = Num rows \<and> rows < 0 \<longrightarrow>
          acceptV0_checks cfg k v0 ntrack ptrack coll ! 8 = Next)
    \<and> (\<forall>cs. set cs = set (acceptV0_checks cfg k v0 ntrack ptrack coll) \<longrightarrow>
          finish (run_checks cs) = acceptV0 cfg k v0 ntrack ptrack coll)"
proof -
  let ?checks = "acceptV0_checks cfg k v0 ntrack ptrack coll"
  note valid = itsIbSelection_valid [OF assms(1)] itsIbSelection_valid [OF assms(2)]
    tofSelection_valid [OF assms(3)] tofSelection_valid [OF assms(4)]
    trdSelection_valid [OF assms(5)] trdSelection_valid [OF assms(6)]
    pidHypoSelection_valid [OF assms(7)] pidHypoSelection_valid [OF assms(8)]
  have steps: "\<forall>c \<in> set ?checks. c = Next \<or> c = Return False"
    unfolding acceptV0_checks_def valid
    by (simp only: list.set ball_simps reject_if_flow simp_thms)
  have main: "acceptV0 cfg k v0 ntrack ptrack coll = Inr (Return False \<notin> set ?checks)"
    unfolding acceptV0_def by (rule finish_run_rejects [OF steps])
  have conj: "(Return False \<notin> set ?checks) = (
      \<not> fgt (fabs (yK0Short v0)) (v0setting_rapidity cfg) \<and>
      \<not> flt (v0radius v0) (v0setting_radius cfg) \<and>
      \<not> fgt (fmul (distovertotmom v0 (posX coll) (posY coll) (posZ coll)) (Num (sMasses_K0 k)))
             (fmul (Num 2.684) (v0lifetime cfg)) \<and>
      (itsIbSelectionPos cfg = -1 \<longrightarrow> itsNClsInnerBarrel ptrack = 0) \<and>
      (itsIbSelectionPos cfg = 1 \<longrightarrow> itsNClsInnerBarrel ptrack \<ge> 1) \<and>
      (itsIbSelectionNeg cfg = -1 \<longrightarrow> itsNClsInnerBarrel ntrack = 0) \<and>
      (itsIbSelectionNeg cfg = 1 \<longrightarrow> itsNClsInnerBarrel ntrack \<ge> 1) \<and>
      hasTPC ntrack \<and> hasTPC ptrack \<and>
      \<not> fgt (fabs (tpcNSigmaPi ntrack)) (nMaxTPCNsigma cfg) \<and>
      \<not> fgt (fabs (tpcNSigmaPi ptrack)) (nMaxTPCNsigma cfg) \<and>
      \<not> flt (Num (real (tpcNClsCrossedRows ntrack))) (extraCutTPCClusters cfg) \<and>
      \<not> flt (Num (real (tpcNClsCrossedRows ptrack))) (extraCutTPCClusters cfg) \<and>
      (tofSelectionPos cfg = -1 \<longrightarrow> \<not> hasTOF ptrack) \<and> (tofSelectionPos cfg = 1 \<longrightarrow> hasTOF ptrack) \<and>
      (tofSelectionNeg cfg = -1 \<longrightarrow> \<not> hasTOF ntrack) \<and> (tofSelectionNeg cfg = 1 \<longrightarrow> hasTOF ntrack) \<and>
      (trdSelectionPos cfg = -1 \<longrightarrow> \<not> hasTRD ptrack) \<and> (trdSelectionPos cfg = 1 \<longrightarrow> hasTRD ptrack) \<and>
      (trdSelectionNeg cfg = -1 \<longrightarrow> \<not> hasTRD ntrack) \<and> (trdSelectionNeg cfg = 1 \<longrightarrow> hasTRD ntrack) \<and>
      (pidHypoPos cfg \<noteq> -1 \<longrightarrow> uint (pidForTracking ptrack) = pidHypoPos cfg) \<and>
      (pidHypoNeg cfg \<noteq> -1 \<longrightarrow> uint (pidForTracking ntrack) = pidHypoNeg cfg))"
    unfolding acceptV0_checks_def valid
    by simp blast
  have general: "acceptV0 cfg k v0 ntrack ptrack coll = Inr (
      \<not> fgt (fabs (yK0Short v0)) (v0setting_rapidity cfg) \<and>
      \<not> flt (v0radius v0) (v0setting_radius cfg) \<and>
      \<not> fgt (fmul (distovertotmom v0 (posX coll) (posY coll) (posZ coll)) (Num (sMasses_K0 k)))
             (fmul (Num 2.684) (v0lifetime cfg)) \<and>
      (itsIbSelectionPos cfg = -1 \<longrightarrow> itsNClsInnerBarrel ptrack = 0) \<and>
      (itsIbSelectionPos cfg = 1 \<longrightarrow> itsNClsInnerBarrel ptrack \<ge> 1) \<and>
      (itsIbSelectionNeg cfg = -1 \<longrightarrow> itsNClsInnerBarrel ntrack = 0) \<and>
      (itsIbSelectionNeg cfg = 1 \<longrightarrow> itsNClsInnerBarrel ntrack \<ge> 1) \<and>
      hasTPC ntrack \<and> hasTPC ptrack \<and>
      \<not> fgt (fabs (tpcNSigmaPi ntrack)) (nMaxTPCNsigma cfg) \<and>
      \<not> fgt (fabs (tpcNSigmaPi ptrack)) (nMaxTPCNsigma cfg) \<and>
      \<not> flt (Num (real (tpcNClsCrossedRows ntrack))) (extraCutTPCClusters cfg) \<and>
      \<not> flt (Num (real (tpcNClsCrossedRows ptrack))) (extraCutTPCClusters cfg) \<and>
      (tofSelectionPos cfg = -1 \<longrightarrow> \<not> hasTOF ptrack) \<and> (tofSelectionPos cfg = 1 \<longrightarrow> hasTOF ptrack) \<and>
      (tofSelectionNeg cfg = -1 \<longrightarrow> \<not> hasTOF ntrack) \<and> (tofSelectionNeg cfg = 1 \<longrightarrow> hasTOF ntrack) \<and>
      (trdSelectionPos cfg = -1 \<longrightarrow> \<not> hasTRD ptrack) \<and> (trdSelectionPos cfg = 1 \<longrightarrow> hasTRD ptrack) \<and>
      (trdSelectionNeg cfg = -1 \<longrightarrow> \<not> hasTRD ntrack) \<and> (trdSelectionNeg cfg = 1 \<longrightarrow> hasTRD ntrack) \<and>
      (pidHypoPos cfg \<noteq> -1 \<longrightarrow> uint (pidForTracking ptrack) = pidHypoPos cfg) \<and>
      (pidHypoNeg cfg \<noteq> -1 \<longrightarrow> uint (pidForTracking ntrack) = pidHypoNeg cfg))"
    unfolding main conj ..
  have numbers: "yK0Short v0 = Num y \<and> v0radius v0 = Num r \<and>
      distovertotmom v0 (posX coll) (posY coll) (posZ coll) = Num d \<and>
      tpcNSigmaPi ntrack = Num sn \<and> tpcNSigmaPi ptrack = Num sp \<and>
      v0setting_rapidity cfg = Num ycut \<and> v0setting_radius cfg = Num rcut \<and>
      v0lifetime cfg = Num lt \<and> nMaxTPCNsigma cfg = Num smax \<and>
      extraCutTPCClusters cfg = Num rows \<longrightarrow>
      acceptV0 cfg k v0 ntrack ptrack coll = Inr (
      \<bar>y\<bar> \<le> ycut \<and>
      r \<ge> rcut \<and>
      d * sMasses_K0 k \<le> 2.684 * lt \<and>
      (itsIbSelectionPos cfg = -1 \<longrightarrow> itsNClsInnerBarrel ptrack = 0) \<and>
      (itsIbSelectionPos cfg = 1 \<longrightarrow> itsNClsInnerBarrel ptrack \<ge> 1) \<and>
      (itsIbSelectionNeg cfg = -1 \<longrightarrow> itsNClsInnerBarrel ntrack = 0) \<and>
      (itsIbSelectionNeg cfg = 1 \<longrightarrow> itsNClsInnerBarrel ntrack \<ge> 1) \<and>
      hasTPC ntrack \<and> hasTPC ptrack \<and>
      \<bar>sn\<bar> \<le> smax \<and>
      \<bar>sp\<bar> \<le> smax \<and>
      real (tpcNClsCrossedRows ntrack) \<ge> rows \<and>
      real (tpcNClsCrossedRows ptrack) \<ge> rows \<and>
      (tofSelectionPos cfg = -1 \<longrightarrow> \<not> hasTOF ptrack) \<and> (tofSelectionPos cfg = 1 \<longrightarrow> hasTOF ptrack) \<and>
      (tofSelectionNeg cfg = -1 \<longrightarrow> \<not> hasTOF ntrack) \<and> (tofSelectionNeg cfg = 1 \<longrightarrow> hasTOF ntrack) \<and>
      (trdSelectionPos cfg = -1 \<longrightarrow> \<not> hasTRD ptrack) \<and> (trdSelectionPos cfg = 1 \<longrightarrow> hasTRD ptrack) \<and>
      (trdSelectionNeg cfg = -1 \<longrightarrow> \<not> hasTRD ntrack) \<and> (trdSelectionNeg cfg = 1 \<longrightarrow> hasTRD ntrack) \<and>
      (pidHypoPos cfg \<noteq> -1 \<longrightarrow> uint (pidForTracking ptrack) = pidHypoPos cfg) \<and>
      (pidHypoNeg cfg \<noteq> -1 \<longrightarrow> uint (pidForTracking ntrack) = pidHypoNeg cfg))"
    unfolding general by (clarsimp simp: not_less)
  have order: "\<forall>cs. set cs = set ?checks \<longrightarrow> finish (run_checks cs) = acceptV0 cfg k v0 ntrack ptrack coll"
  proof (intro allI impI)
    fix cs assume eq: "set cs = set ?checks"
    with steps have "\<forall>c \<in> set cs. c = Next \<or> c = Return False" by simp
    then have "finish (run_checks cs) = Inr (Return False \<notin> set cs)" by (rule finish_run_rejects)
    with eq main show "finish (run_checks cs) = acceptV0 cfg k v0 ntrack ptrack coll" by simp
  qed
  have vac: "extraCutTPCClusters cfg = Num rows \<and> rows < 0 \<longrightarrow> ?checks ! 8 = Next"
    by (simp add: acceptV0_checks_def not_less)
  from numbers general vac order show ?thesis
    by (intro conjI)
qed

lemmas example_defs = default_config_def example_constants_def example_collision_def
  pion_plus_def pion_minus_def example_posTrack_def example_negTrack_def example_v0_def
  empty_registries_def

lemma witness_config_valid:
  "itsIbSelectionPos witness_config \<in> {-1, 0, 1}" "itsIbSelectionNeg witness_config \<in> {-1, 0, 1}"
  "tofSelectionPos witness_config \<in> {-1, 0, 1}" "tofSelectionNeg witness_config \<in> {-1, 0, 1}"
  "trdSelectionPos witness_config \<in> {-1, 0, 1}" "trdSelectionNeg witness_config \<in> {-1, 0, 1}"
  "pidHypoPos witness_config \<in> {-1, 0, 1, 2, 3, 4}" "pidHypoNeg witness_config \<in> {-1, 0, 1, 2, 3, 4}"
  by (simp_all add: witness_config_def default_config_def)

text \<open>
  The theorem at the example candidate under \<open>witness_config\<close>, all of whose compared
  values are numbers: it is accepted, and the same candidate whose positive daughter has
  no TOF is rejected.
\<close>

theorem acceptV0_iff_all_predicates_witness:
  "acceptV0 witness_config example_constants example_v0 example_negTrack example_posTrack
     example_collision = Inr True
   \<and> acceptV0 witness_config example_constants example_v0 example_negTrack
     (example_posTrack\<lparr>hasTOF := False\<rparr>) example_collision = Inr False"
proof -
  have nums: "yK0Short example_v0 = Num 0.1 \<and> v0radius example_v0 = Num 1 \<and>
      distovertotmom example_v0 (posX example_collision) (posY example_collision) (posZ example_collision)
        = Num 2 \<and>
      tpcNSigmaPi example_negTrack = Num (-1) \<and> tpcNSigmaPi example_posTrack = Num 0 \<and>
      v0setting_rapidity witness_config = Num 0.5 \<and> v0setting_radius witness_config = Num 0.9 \<and>
      v0lifetime witness_config = Num 3 \<and> nMaxTPCNsigma witness_config = Num 10 \<and>
      extraCutTPCClusters witness_config = Num (-1)"
    by (simp add: witness_config_def example_defs)
  have nums': "yK0Short example_v0 = Num 0.1 \<and> v0radius example_v0 = Num 1 \<and>
      distovertotmom example_v0 (posX example_collision) (posY example_collision) (posZ example_collision)
        = Num 2 \<and>
      tpcNSigmaPi example_negTrack = Num (-1) \<and> tpcNSigmaPi (example_posTrack\<lparr>hasTOF := False\<rparr>) = Num 0 \<and>
      v0setting_rapidity witness_config = Num 0.5 \<and> v0setting_radius witness_config = Num 0.9 \<and>
      v0lifetime witness_config = Num 3 \<and> nMaxTPCNsigma witness_config = Num 10 \<and>
      extraCutTPCClusters witness_config = Num (-1)"
    by (simp add: witness_config_def example_defs)
  note acc = acceptV0_iff_all_predicates [OF witness_config_valid, THEN conjunct1, THEN mp, OF nums]
    acceptV0_iff_all_predicates [OF witness_config_valid, THEN conjunct1, THEN mp, OF nums']
  show ?thesis
    unfolding acc by (simp add: witness_config_def example_defs)
qed

text \<open>
  C1 as stated fails: under the default configuration, the example candidate with a NaN
  rapidity is accepted (the test of line 136 is false on a NaN), although its rapidity
  magnitude is not within the rapidity cut.
\<close>

theorem nan_rapidity_accepted_counterexample:
  "acceptV0 default_config example_constants (example_v0\<lparr>yK0Short := NaN\<rparr>)
     example_negTrack example_posTrack example_collision = Inr True
   \<and> \<not> fle (fabs (yK0Short (example_v0\<lparr>yK0Short := NaN\<rparr>))) (v0setting_rapidity default_config)"
  by (simp add: acceptV0_def acceptV0_checks_def itsIbSelection_def tofSelection_def trdSelection_def
      pidHypoSelection_def reject_if_def finish_simps example_defs)

lemma run_checks_append:
  "run_checks (xs @ ys) = (case run_checks xs of Next \<Rightarrow> run_checks ys | Return b \<Rightarrow> Return b | Fatal m \<Rightarrow> Fatal m)"
  by (induction xs rule: run_checks.induct) simp_all

lemma run_checks_at:
  assumes "i < length cs" and "reaches i cs"
  shows "run_checks cs = run_checks (cs ! i # drop (Suc i) cs)"
proof -
  have "cs = take i cs @ cs ! i # drop (Suc i) cs"
    using assms(1) by (rule id_take_nth_drop)
  then have "run_checks cs = run_checks (take i cs @ cs ! i # drop (Suc i) cs)"
    by simp
  also have "\<dots> = run_checks (cs ! i # drop (Suc i) cs)"
    using assms(2) by (simp add: run_checks_append reaches_def)
  finally show ?thesis .
qed

lemma acceptV0_at:
  assumes "i < 15" and "reaches i (acceptV0_checks cfg k v0 ntrack ptrack coll)"
  shows "acceptV0 cfg k v0 ntrack ptrack coll =
         finish (run_checks (acceptV0_checks cfg k v0 ntrack ptrack coll ! i
                             # drop (Suc i) (acceptV0_checks cfg k v0 ntrack ptrack coll)))"
proof -
  have "length (acceptV0_checks cfg k v0 ntrack ptrack coll) = 15"
    by (simp add: acceptV0_checks_def)
  with assms(1) have "i < length (acceptV0_checks cfg k v0 ntrack ptrack coll)" by simp
  from run_checks_at [OF this assms(2)] show ?thesis
    by (simp add: acceptV0_def)
qed

lemma acceptV0_checks_nth:
  "acceptV0_checks cfg k v0 ntrack ptrack coll ! 0 =
     reject_if (fgt (fabs (yK0Short v0)) (v0setting_rapidity cfg))"
  "acceptV0_checks cfg k v0 ntrack ptrack coll ! 1 = reject_if (flt (v0radius v0) (v0setting_radius cfg))"
  "acceptV0_checks cfg k v0 ntrack ptrack coll ! 2 =
     reject_if (fgt (fmul (distovertotmom v0 (posX coll) (posY coll) (posZ coll)) (Num (sMasses_K0 k)))
                    (fmul (Num 2.684) (v0lifetime cfg)))"
  "acceptV0_checks cfg k v0 ntrack ptrack coll ! 3 =
     itsIbSelection (itsIbSelectionPos cfg) ptrack ''Invalid ITS selection for positive daughter''"
  "acceptV0_checks cfg k v0 ntrack ptrack coll ! 4 =
     itsIbSelection (itsIbSelectionNeg cfg) ntrack ''Invalid ITS selection for negative daughter''"
  "acceptV0_checks cfg k v0 ntrack ptrack coll ! 9 =
     tofSelection (tofSelectionPos cfg) ptrack ''Invalid TOF selection for positive daughter''"
  "acceptV0_checks cfg k v0 ntrack ptrack coll ! 10 =
     tofSelection (tofSelectionNeg cfg) ntrack ''Invalid TOF selection for negative daughter''"
  "acceptV0_checks cfg k v0 ntrack ptrack coll ! 11 =
     trdSelection (trdSelectionPos cfg) ptrack ''Invalid TRD selection for positive daughter''"
  "acceptV0_checks cfg k v0 ntrack ptrack coll ! 12 =
     trdSelection (trdSelectionNeg cfg) ntrack ''Invalid TRD selection for negative daughter''"
  "acceptV0_checks cfg k v0 ntrack ptrack coll ! 13 =
     pidHypoSelection (pidHypoPos cfg) ptrack ''Invalid PID selection for positive daughter''"
  "acceptV0_checks cfg k v0 ntrack ptrack coll ! 14 =
     pidHypoSelection (pidHypoNeg cfg) ntrack ''Invalid PID selection for negative daughter''"
  by (simp_all add: acceptV0_checks_def)

lemma itsIbSelection_switch:
  assumes "i < 15" and "reaches i (acceptV0_checks cfg k v0 ntrack ptrack coll)"
    and "acceptV0_checks cfg k v0 ntrack ptrack coll ! i = itsIbSelection sel trk msg"
  shows "(sel = -1 \<and> itsNClsInnerBarrel trk > 0 \<longrightarrow> acceptV0 cfg k v0 ntrack ptrack coll = Inr False) \<and>
     (sel = 1 \<and> itsNClsInnerBarrel trk < 1 \<longrightarrow> acceptV0 cfg k v0 ntrack ptrack coll = Inr False) \<and>
     (sel = 0 \<or> sel = -1 \<and> itsNClsInnerBarrel trk = 0 \<or> sel = 1 \<and> itsNClsInnerBarrel trk \<ge> 1 \<longrightarrow>
        acceptV0 cfg k v0 ntrack ptrack coll =
          finish (run_checks (drop (Suc i) (acceptV0_checks cfg k v0 ntrack ptrack coll)))) \<and>
     (sel \<notin> {-1, 0, 1} \<longrightarrow> acceptV0 cfg k v0 ntrack ptrack coll = Inl (FatalError msg))"
  unfolding acceptV0_at [OF assms(1,2)] assms(3)
  by (auto simp: itsIbSelection_def reject_if_def finish_simps)

lemma tofSelection_switch:
  assumes "i < 15" and "reaches i (acceptV0_checks cfg k v0 ntrack ptrack coll)"
    and "acceptV0_checks cfg k v0 ntrack ptrack coll ! i = tofSelection sel trk msg"
  shows "(sel = -1 \<and> hasTOF trk \<longrightarrow> acceptV0 cfg k v0 ntrack ptrack coll = Inr False) \<and>
     (sel = 1 \<and> \<not> hasTOF trk \<longrightarrow> acceptV0 cfg k v0 ntrack ptrack coll = Inr False) \<and>
     (sel = 0 \<or> sel = -1 \<and> \<not> hasTOF trk \<or> sel = 1 \<and> hasTOF trk \<longrightarrow>
        acceptV0 cfg k v0 ntrack ptrack coll =
          finish (run_checks (drop (Suc i) (acceptV0_checks cfg k v0 ntrack ptrack coll)))) \<and>
     (sel \<notin> {-1, 0, 1} \<longrightarrow> acceptV0 cfg k v0 ntrack ptrack coll = Inl (FatalError msg))"
  unfolding acceptV0_at [OF assms(1,2)] assms(3)
  by (auto simp: tofSelection_def reject_if_def finish_simps)

lemma trdSelection_switch:
  assumes "i < 15" and "reaches i (acceptV0_checks cfg k v0 ntrack ptrack coll)"
    and "acceptV0_checks cfg k v0 ntrack ptrack coll ! i = trdSelection sel trk msg"
  shows "(sel = -1 \<and> hasTRD trk \<longrightarrow> acceptV0 cfg k v0 ntrack ptrack coll = Inr False) \<and>
     (sel = 1 \<and> \<not> hasTRD trk \<longrightarrow> acceptV0 cfg k v0 ntrack ptrack coll = Inr False) \<and>
     (sel = 0 \<or> sel = -1 \<and> \<not> hasTRD trk \<or> sel = 1 \<and> hasTRD trk \<longrightarrow>
        acceptV0 cfg k v0 ntrack ptrack coll =
          finish (run_checks (drop (Suc i) (acceptV0_checks cfg k v0 ntrack ptrack coll)))) \<and>
     (sel \<notin> {-1, 0, 1} \<longrightarrow> acceptV0 cfg k v0 ntrack ptrack coll = Inl (FatalError msg))"
  unfolding acceptV0_at [OF assms(1,2)] assms(3)
  by (auto simp: trdSelection_def reject_if_def finish_simps)

lemma pidHypoSelection_switch:
  assumes "i < 15" and "reaches i (acceptV0_checks cfg k v0 ntrack ptrack coll)"
    and "acceptV0_checks cfg k v0 ntrack ptrack coll ! i = pidHypoSelection sel trk msg"
  shows "(sel \<in> {0, 1, 2, 3, 4} \<and> uint (pidForTracking trk) \<noteq> sel \<longrightarrow>
        acceptV0 cfg k v0 ntrack ptrack coll = Inr False) \<and>
     (sel = -1 \<or> sel \<in> {0, 1, 2, 3, 4} \<and> uint (pidForTracking trk) = sel \<longrightarrow>
        acceptV0 cfg k v0 ntrack ptrack coll =
          finish (run_checks (drop (Suc i) (acceptV0_checks cfg k v0 ntrack ptrack coll)))) \<and>
     (sel \<notin> {-1, 0, 1, 2, 3, 4} \<longrightarrow> acceptV0 cfg k v0 ntrack ptrack coll = Inl (FatalError msg))"
proof -
  have eq: "sel \<in> {0, 1, 2, 3, 4} \<Longrightarrow> (pidForTracking trk = (word_of_int sel :: 32 word)) = (uint (pidForTracking trk) = sel)"
    by (rule uint_eq_small)
  show ?thesis
    unfolding acceptV0_at [OF assms(1,2)] assms(3)
    using eq by (auto simp: pidHypoSelection_def reject_if_def finish_simps)
qed

text \<open>
  C4, as amended. For each of the six detector switches (inner barrel, TOF and TRD, for
  the positive and the negative daughter) and every candidate for which the switch
  statement is executed, that is, every statement of \<open>acceptV0\<close> before it fell through:
  with value -1 the candidate is rejected when the daughter has the signal (for the
  inner barrel: at least one inner cluster); with value 1 it is rejected when the daughter
  lacks it; with value 0, and with -1 or 1 when the daughter does not violate the
  requirement, the switch decides nothing and the result is that of the statements after
  it; with any other value \<open>acceptV0\<close> ends in the fatal error with the message of that
  switch. (A candidate that an earlier statement rejects never executes the switch.)
\<close>

theorem detector_switch_when_reached:
  assumes cs: "cs = acceptV0_checks cfg k v0 ntrack ptrack coll"
    and res: "res = acceptV0 cfg k v0 ntrack ptrack coll"
  shows "(reaches 3 cs \<longrightarrow>
       (itsIbSelectionPos cfg = -1 \<and> itsNClsInnerBarrel ptrack > 0 \<longrightarrow> res = Inr False) \<and>
       (itsIbSelectionPos cfg = 1 \<and> itsNClsInnerBarrel ptrack < 1 \<longrightarrow> res = Inr False) \<and>
       (itsIbSelectionPos cfg = 0 \<or> itsIbSelectionPos cfg = -1 \<and> itsNClsInnerBarrel ptrack = 0 \<or> itsIbSelectionPos cfg = 1 \<and> itsNClsInnerBarrel ptrack \<ge> 1 \<longrightarrow>
          res = finish (run_checks (drop 4 cs))) \<and>
       (itsIbSelectionPos cfg \<notin> {-1, 0, 1} \<longrightarrow> res = Inl (FatalError ''Invalid ITS selection for positive daughter''))) \<and>
     (reaches 4 cs \<longrightarrow>
       (itsIbSelectionNeg cfg = -1 \<and> itsNClsInnerBarrel ntrack > 0 \<longrightarrow> res = Inr False) \<and>
       (itsIbSelectionNeg cfg = 1 \<and> itsNClsInnerBarrel ntrack < 1 \<longrightarrow> res = Inr False) \<and>
       (itsIbSelectionNeg cfg = 0 \<or> itsIbSelectionNeg cfg = -1 \<and> itsNClsInnerBarrel ntrack = 0 \<or> itsIbSelectionNeg cfg = 1 \<and> itsNClsInnerBarrel ntrack \<ge> 1 \<longrightarrow>
          res = finish (run_checks (drop 5 cs))) \<and>
       (itsIbSelectionNeg cfg \<notin> {-1, 0, 1} \<longrightarrow> res = Inl (FatalError ''Invalid ITS selection for negative daughter''))) \<and>
     (reaches 9 cs \<longrightarrow>
       (tofSelectionPos cfg = -1 \<and> hasTOF ptrack \<longrightarrow> res = Inr False) \<and>
       (tofSelectionPos cfg = 1 \<and> \<not> hasTOF ptrack \<longrightarrow> res = Inr False) \<and>
       (tofSelectionPos cfg = 0 \<or> tofSelectionPos cfg = -1 \<and> \<not> hasTOF ptrack \<or> tofSelectionPos cfg = 1 \<and> hasTOF ptrack \<longrightarrow>
          res = finish (run_checks (drop 10 cs))) \<and>
       (tofSelectionPos cfg \<notin> {-1, 0, 1} \<longrightarrow> res = Inl (FatalError ''Invalid TOF selection for positive daughter''))) \<and>
     (reaches 10 cs \<longrightarrow>
       (tofSelectionNeg cfg = -1 \<and> hasTOF ntrack \<longrightarrow> res = Inr False) \<and>
       (tofSelectionNeg cfg = 1 \<and> \<not> hasTOF ntrack \<longrightarrow> res = Inr False) \<and>
       (tofSelectionNeg cfg = 0 \<or> tofSelectionNeg cfg = -1 \<and> \<not> hasTOF ntrack \<or> tofSelectionNeg cfg = 1 \<and> hasTOF ntrack \<longrightarrow>
          res = finish (run_checks (drop 11 cs))) \<and>
       (tofSelectionNeg cfg \<notin> {-1, 0, 1} \<longrightarrow> res = Inl (FatalError ''Invalid TOF selection for negative daughter''))) \<and>
     (reaches 11 cs \<longrightarrow>
       (trdSelectionPos cfg = -1 \<and> hasTRD ptrack \<longrightarrow> res = Inr False) \<and>
       (trdSelectionPos cfg = 1 \<and> \<not> hasTRD ptrack \<longrightarrow> res = Inr False) \<and>
       (trdSelectionPos cfg = 0 \<or> trdSelectionPos cfg = -1 \<and> \<not> hasTRD ptrack \<or> trdSelectionPos cfg = 1 \<and> hasTRD ptrack \<longrightarrow>
          res = finish (run_checks (drop 12 cs))) \<and>
       (trdSelectionPos cfg \<notin> {-1, 0, 1} \<longrightarrow> res = Inl (FatalError ''Invalid TRD selection for positive daughter''))) \<and>
     (reaches 12 cs \<longrightarrow>
       (trdSelectionNeg cfg = -1 \<and> hasTRD ntrack \<longrightarrow> res = Inr False) \<and>
       (trdSelectionNeg cfg = 1 \<and> \<not> hasTRD ntrack \<longrightarrow> res = Inr False) \<and>
       (trdSelectionNeg cfg = 0 \<or> trdSelectionNeg cfg = -1 \<and> \<not> hasTRD ntrack \<or> trdSelectionNeg cfg = 1 \<and> hasTRD ntrack \<longrightarrow>
          res = finish (run_checks (drop 13 cs))) \<and>
       (trdSelectionNeg cfg \<notin> {-1, 0, 1} \<longrightarrow> res = Inl (FatalError ''Invalid TRD selection for negative daughter'')))"
proof -
  note nth = acceptV0_checks_nth [of cfg k v0 ntrack ptrack coll]
  have lt: "3 < (15::nat)" "4 < (15::nat)" "9 < (15::nat)" "10 < (15::nat)" "11 < (15::nat)" "12 < (15::nat)"
    by simp_all
  have suc: "Suc 3 = 4" "Suc 4 = 5" "Suc 9 = 10" "Suc 10 = 11" "Suc 11 = 12" "Suc 12 = 13"
    by simp_all
  note sw = itsIbSelection_switch [OF lt(1) _ nth(4)] itsIbSelection_switch [OF lt(2) _ nth(5)]
    tofSelection_switch [OF lt(3) _ nth(6)] tofSelection_switch [OF lt(4) _ nth(7)]
    trdSelection_switch [OF lt(5) _ nth(8)] trdSelection_switch [OF lt(6) _ nth(9)]
  show ?thesis
    unfolding cs res
    by (intro conjI impI; (drule sw)?; (simp only: suc)?; blast)
qed

lemma example_reaches_9:
  "reaches 9 (acceptV0_checks (default_config\<lparr>tofSelectionPos := sel\<rparr>) example_constants example_v0
                example_negTrack example_posTrack example_collision)"
  by (simp add: reaches_def acceptV0_checks_def itsIbSelection_def reject_if_def example_defs)

text \<open>
  The theorem at the example candidate, which reaches the TOF switch of the positive
  daughter: value 7 gives the fatal error, value -1 rejects it (the daughter has TOF).
\<close>

theorem detector_switch_when_reached_witness:
  "acceptV0 (default_config\<lparr>tofSelectionPos := 7\<rparr>) example_constants example_v0
     example_negTrack example_posTrack example_collision
     = Inl (FatalError ''Invalid TOF selection for positive daughter'')
   \<and> acceptV0 (default_config\<lparr>tofSelectionPos := -1\<rparr>) example_constants example_v0
     example_negTrack example_posTrack example_collision = Inr False"
proof -
  note tof = detector_switch_when_reached [OF refl refl, THEN conjunct2, THEN conjunct2,
      THEN conjunct1, THEN mp, OF example_reaches_9]
  have "tofSelectionPos (default_config\<lparr>tofSelectionPos := 7\<rparr>) \<notin> {-1, 0, 1}"
    by simp
  from tof [THEN conjunct2, THEN conjunct2, THEN conjunct2, THEN mp, OF this]
  have fatal: "acceptV0 (default_config\<lparr>tofSelectionPos := 7\<rparr>) example_constants example_v0
     example_negTrack example_posTrack example_collision
     = Inl (FatalError ''Invalid TOF selection for positive daughter'')" .
  have "tofSelectionPos (default_config\<lparr>tofSelectionPos := -1\<rparr>) = -1 \<and> hasTOF example_posTrack"
    by (simp add: example_defs)
  from tof [THEN conjunct1, THEN mp, OF this] fatal show ?thesis
    by simp
qed

text \<open>
  C4 as stated fails: with the inner-barrel switch of the positive daughter set to 2, a
  candidate of rapidity 0.75 (cut 0.5) is rejected by the first statement of \<open>acceptV0\<close>,
  silently and without the fatal error.
\<close>

theorem invalid_detector_switch_counterexample:
  "itsIbSelectionPos (default_config\<lparr>itsIbSelectionPos := 2\<rparr>) \<notin> {-1, 0, 1}
   \<and> acceptV0 (default_config\<lparr>itsIbSelectionPos := 2\<rparr>) example_constants
       (example_v0\<lparr>yK0Short := Num 0.75\<rparr>) example_negTrack example_posTrack example_collision
     = Inr False"
  by (simp add: acceptV0_def acceptV0_checks_def reject_if_def finish_simps example_defs)

text \<open>
  C8, as amended. For each of the two PID-hypothesis switches and every candidate for
  which the switch statement is executed (every statement of \<open>acceptV0\<close> before it fell
  through): value -1 imposes nothing; a value from 0 to 4 rejects the candidate unless the
  daughter's tracking hypothesis is exactly that value, and imposes nothing more when it
  is; any other value ends \<open>acceptV0\<close> in the fatal error with the message of that switch.
  The switch of the negative daughter is the last statement: where it imposes nothing the
  candidate is accepted.
\<close>

theorem pid_switch_when_reached:
  assumes cs: "cs = acceptV0_checks cfg k v0 ntrack ptrack coll"
    and res: "res = acceptV0 cfg k v0 ntrack ptrack coll"
  shows "(reaches 13 cs \<longrightarrow>
       (pidHypoPos cfg = -1 \<longrightarrow> res = finish (run_checks (drop 14 cs))) \<and>
       (pidHypoPos cfg \<in> {0, 1, 2, 3, 4} \<and> uint (pidForTracking ptrack) \<noteq> pidHypoPos cfg \<longrightarrow>
          res = Inr False) \<and>
       (pidHypoPos cfg \<in> {0, 1, 2, 3, 4} \<and> uint (pidForTracking ptrack) = pidHypoPos cfg \<longrightarrow>
          res = finish (run_checks (drop 14 cs))) \<and>
       (pidHypoPos cfg \<notin> {-1, 0, 1, 2, 3, 4} \<longrightarrow>
          res = Inl (FatalError ''Invalid PID selection for positive daughter''))) \<and>
     (reaches 14 cs \<longrightarrow>
       (pidHypoNeg cfg = -1 \<longrightarrow> res = Inr True) \<and>
       (pidHypoNeg cfg \<in> {0, 1, 2, 3, 4} \<and> uint (pidForTracking ntrack) \<noteq> pidHypoNeg cfg \<longrightarrow>
          res = Inr False) \<and>
       (pidHypoNeg cfg \<in> {0, 1, 2, 3, 4} \<and> uint (pidForTracking ntrack) = pidHypoNeg cfg \<longrightarrow>
          res = Inr True) \<and>
       (pidHypoNeg cfg \<notin> {-1, 0, 1, 2, 3, 4} \<longrightarrow>
          res = Inl (FatalError ''Invalid PID selection for negative daughter'')))"
proof -
  note nth = acceptV0_checks_nth [of cfg k v0 ntrack ptrack coll]
  have lt: "13 < (15::nat)" "14 < (15::nat)"
    by simp_all
  have last: "finish (run_checks (drop (Suc 14) (acceptV0_checks cfg k v0 ntrack ptrack coll))) = Inr True"
    by (simp add: acceptV0_checks_def finish_simps)
  have suc: "Suc 13 = 14"
    by simp
  note sw = pidHypoSelection_switch [OF lt(1) _ nth(10)] pidHypoSelection_switch [OF lt(2) _ nth(11)]
  show ?thesis
    unfolding cs res
    by (intro conjI impI; (drule sw)?; (simp only: suc last)?; blast)
qed

lemma example_reaches_13:
  "reaches 13 (acceptV0_checks (default_config\<lparr>pidHypoPos := sel\<rparr>) example_constants example_v0
                example_negTrack example_posTrack example_collision)"
  by (simp add: reaches_def acceptV0_checks_def itsIbSelection_def tofSelection_def trdSelection_def
      reject_if_def example_defs)

text \<open>
  The theorem at the example candidate, which reaches the PID switch of the positive
  daughter (tracking hypothesis 2): value 5 gives the fatal error, value 4 rejects it.
\<close>

theorem pid_switch_when_reached_witness:
  "acceptV0 (default_config\<lparr>pidHypoPos := 5\<rparr>) example_constants example_v0
     example_negTrack example_posTrack example_collision
     = Inl (FatalError ''Invalid PID selection for positive daughter'')
   \<and> acceptV0 (default_config\<lparr>pidHypoPos := 4\<rparr>) example_constants example_v0
     example_negTrack example_posTrack example_collision = Inr False"
proof -
  note pid = pid_switch_when_reached [OF refl refl, THEN conjunct1, THEN mp, OF example_reaches_13]
  have "pidHypoPos (default_config\<lparr>pidHypoPos := 5\<rparr>) \<notin> {-1, 0, 1, 2, 3, 4}"
    by simp
  from pid [THEN conjunct2, THEN conjunct2, THEN conjunct2, THEN mp, OF this]
  have fatal: "acceptV0 (default_config\<lparr>pidHypoPos := 5\<rparr>) example_constants example_v0
     example_negTrack example_posTrack example_collision
     = Inl (FatalError ''Invalid PID selection for positive daughter'')" .
  have "pidHypoPos (default_config\<lparr>pidHypoPos := 4\<rparr>) \<in> {0, 1, 2, 3, 4}
      \<and> uint (pidForTracking example_posTrack) \<noteq> pidHypoPos (default_config\<lparr>pidHypoPos := 4\<rparr>)"
    by (simp add: example_defs)
  from pid [THEN conjunct2, THEN conjunct1, THEN mp, OF this] fatal show ?thesis
    by simp
qed

text \<open>
  C8 as stated fails: with the PID switch of the negative daughter set to 5, a candidate
  whose positive daughter has no TPC is rejected by the TPC statement of \<open>acceptV0\<close>,
  a per-candidate rejection without the fatal error.
\<close>

theorem invalid_pid_switch_counterexample:
  "pidHypoNeg (default_config\<lparr>pidHypoNeg := 5\<rparr>) \<notin> {-1, 0, 1, 2, 3, 4}
   \<and> acceptV0 (default_config\<lparr>pidHypoNeg := 5\<rparr>) example_constants example_v0
       example_negTrack (example_posTrack\<lparr>hasTPC := False\<rparr>) example_collision
     = Inr False"
  by (simp add: acceptV0_def acceptV0_checks_def itsIbSelection_def reject_if_def finish_simps example_defs)

lemma reaches_3:
  "reaches 3 (acceptV0_checks cfg k v0 ntrack ptrack coll) =
     (\<not> fgt (fabs (yK0Short v0)) (v0setting_rapidity cfg) \<and>
      \<not> flt (v0radius v0) (v0setting_radius cfg) \<and>
      \<not> fgt (fmul (distovertotmom v0 (posX coll) (posY coll) (posZ coll)) (Num (sMasses_K0 k)))
             (fmul (Num 2.684) (v0lifetime cfg)))"
  by (auto simp: reaches_def acceptV0_checks_def reject_if_def)

lemma reaches_run_checks: "reaches i cs \<Longrightarrow> run_checks cs = run_checks (drop i cs)"
proof -
  assume "reaches i cs"
  then have "run_checks (take i cs @ drop i cs) = run_checks (drop i cs)"
    unfolding run_checks_append by (simp add: reaches_def)
  then show ?thesis by simp
qed

text \<open>
  C5. The first three statements of \<open>acceptV0\<close> are the rapidity, radius and lifetime
  cuts. A candidate whose rapidity magnitude equals the rapidity cut, whose radius equals
  the radius cut, or whose distance over momentum times the K0-short mass equals 2.684
  times the lifetime multiplier passes the respective statement; a candidate strictly
  beyond one of the three boundaries is rejected by it, and \<open>acceptV0\<close> returns
  \<open>false\<close>; a candidate within or on all three boundaries is handed to the statements
  that follow. The comparisons are those of floats: \<open>fgt\<close>, \<open>flt\<close>, \<open>fle\<close> and
  \<open>fge\<close> are the order of the numbers and false on a NaN.
\<close>

theorem cut_boundaries_inclusive:
  assumes cs: "cs = acceptV0_checks cfg k v0 ntrack ptrack coll"
    and res: "res = acceptV0 cfg k v0 ntrack ptrack coll"
    and dm: "dm = fmul (distovertotmom v0 (posX coll) (posY coll) (posZ coll)) (Num (sMasses_K0 k))"
    and dmax: "dmax = fmul (Num 2.684) (v0lifetime cfg)"
  shows "(fabs (yK0Short v0) = v0setting_rapidity cfg \<longrightarrow> cs ! 0 = Next) \<and>
     (v0radius v0 = v0setting_radius cfg \<longrightarrow> cs ! 1 = Next) \<and>
     (dm = dmax \<longrightarrow> cs ! 2 = Next) \<and>
     (fgt (fabs (yK0Short v0)) (v0setting_rapidity cfg) \<longrightarrow> cs ! 0 = Return False \<and> res = Inr False) \<and>
     (flt (v0radius v0) (v0setting_radius cfg) \<longrightarrow> cs ! 1 = Return False \<and> res = Inr False) \<and>
     (fgt dm dmax \<longrightarrow> cs ! 2 = Return False \<and> res = Inr False) \<and>
     (fle (fabs (yK0Short v0)) (v0setting_rapidity cfg) \<and> fge (v0radius v0) (v0setting_radius cfg) \<and>
      fle dm dmax \<longrightarrow> res = finish (run_checks (drop 3 cs))) \<and>
     (yK0Short v0 = Num y \<and> v0setting_rapidity cfg = Num ycut \<and> v0radius v0 = Num r \<and>
      v0setting_radius cfg = Num rcut \<and>
      distovertotmom v0 (posX coll) (posY coll) (posZ coll) = Num d \<and> v0lifetime cfg = Num lt \<longrightarrow>
        (\<bar>y\<bar> = ycut \<longrightarrow> cs ! 0 = Next) \<and>
        (r = rcut \<longrightarrow> cs ! 1 = Next) \<and>
        (d * sMasses_K0 k = 2.684 * lt \<longrightarrow> cs ! 2 = Next) \<and>
        (\<bar>y\<bar> > ycut \<longrightarrow> cs ! 0 = Return False \<and> res = Inr False) \<and>
        (r < rcut \<longrightarrow> cs ! 1 = Return False \<and> res = Inr False) \<and>
        (d * sMasses_K0 k > 2.684 * lt \<longrightarrow> cs ! 2 = Return False \<and> res = Inr False) \<and>
        (\<bar>y\<bar> \<le> ycut \<and> r \<ge> rcut \<and> d * sMasses_K0 k \<le> 2.684 * lt \<longrightarrow>
           res = finish (run_checks (drop 3 cs))))"
proof -
  have nth: "cs ! 0 = reject_if (fgt (fabs (yK0Short v0)) (v0setting_rapidity cfg))"
    "cs ! 1 = reject_if (flt (v0radius v0) (v0setting_radius cfg))"
    "cs ! 2 = reject_if (fgt dm dmax)"
    unfolding cs dm dmax by (rule acceptV0_checks_nth)+
  have beyond: "fgt (fabs (yK0Short v0)) (v0setting_rapidity cfg) \<or> flt (v0radius v0) (v0setting_radius cfg) \<or>
      fgt dm dmax \<Longrightarrow> res = Inr False"
    unfolding res dm dmax acceptV0_def acceptV0_checks_def
    by (auto simp: run_checks_reject_if finish_simps)
  have inside: "\<not> fgt (fabs (yK0Short v0)) (v0setting_rapidity cfg) \<and>
      \<not> flt (v0radius v0) (v0setting_radius cfg) \<and> \<not> fgt dm dmax \<Longrightarrow>
      res = finish (run_checks (drop 3 cs))"
    unfolding res cs dm dmax acceptV0_def
    by (rule arg_cong [where f = finish], rule reaches_run_checks) (simp add: reaches_3)
  have floats: "(fabs (yK0Short v0) = v0setting_rapidity cfg \<longrightarrow> cs ! 0 = Next) \<and>
     (v0radius v0 = v0setting_radius cfg \<longrightarrow> cs ! 1 = Next) \<and>
     (dm = dmax \<longrightarrow> cs ! 2 = Next) \<and>
     (fgt (fabs (yK0Short v0)) (v0setting_rapidity cfg) \<longrightarrow> cs ! 0 = Return False \<and> res = Inr False) \<and>
     (flt (v0radius v0) (v0setting_radius cfg) \<longrightarrow> cs ! 1 = Return False \<and> res = Inr False) \<and>
     (fgt dm dmax \<longrightarrow> cs ! 2 = Return False \<and> res = Inr False) \<and>
     (fle (fabs (yK0Short v0)) (v0setting_rapidity cfg) \<and> fge (v0radius v0) (v0setting_radius cfg) \<and>
      fle dm dmax \<longrightarrow> res = finish (run_checks (drop 3 cs)))"
    using beyond inside fle_not_fgt fge_not_flt unfolding nth
    by (auto simp: reject_if_def cfloat_irrefl)
  have numbers: "yK0Short v0 = Num y \<and> v0setting_rapidity cfg = Num ycut \<and> v0radius v0 = Num r \<and>
      v0setting_radius cfg = Num rcut \<and>
      distovertotmom v0 (posX coll) (posY coll) (posZ coll) = Num d \<and> v0lifetime cfg = Num lt \<longrightarrow>
        (\<bar>y\<bar> = ycut \<longrightarrow> cs ! 0 = Next) \<and>
        (r = rcut \<longrightarrow> cs ! 1 = Next) \<and>
        (d * sMasses_K0 k = 2.684 * lt \<longrightarrow> cs ! 2 = Next) \<and>
        (\<bar>y\<bar> > ycut \<longrightarrow> cs ! 0 = Return False \<and> res = Inr False) \<and>
        (r < rcut \<longrightarrow> cs ! 1 = Return False \<and> res = Inr False) \<and>
        (d * sMasses_K0 k > 2.684 * lt \<longrightarrow> cs ! 2 = Return False \<and> res = Inr False) \<and>
        (\<bar>y\<bar> \<le> ycut \<and> r \<ge> rcut \<and> d * sMasses_K0 k \<le> 2.684 * lt \<longrightarrow>
           res = finish (run_checks (drop 3 cs)))"
  proof (intro impI, elim conjE)
    assume n: "yK0Short v0 = Num y" "v0setting_rapidity cfg = Num ycut" "v0radius v0 = Num r"
      "v0setting_radius cfg = Num rcut" "distovertotmom v0 (posX coll) (posY coll) (posZ coll) = Num d"
      "v0lifetime cfg = Num lt"
    have d: "dm = Num (d * sMasses_K0 k)" "dmax = Num (2.684 * lt)"
      unfolding dm dmax n by simp_all
    from floats show "(\<bar>y\<bar> = ycut \<longrightarrow> cs ! 0 = Next) \<and>
        (r = rcut \<longrightarrow> cs ! 1 = Next) \<and>
        (d * sMasses_K0 k = 2.684 * lt \<longrightarrow> cs ! 2 = Next) \<and>
        (\<bar>y\<bar> > ycut \<longrightarrow> cs ! 0 = Return False \<and> res = Inr False) \<and>
        (r < rcut \<longrightarrow> cs ! 1 = Return False \<and> res = Inr False) \<and>
        (d * sMasses_K0 k > 2.684 * lt \<longrightarrow> cs ! 2 = Return False \<and> res = Inr False) \<and>
        (\<bar>y\<bar> \<le> ycut \<and> r \<ge> rcut \<and> d * sMasses_K0 k \<le> 2.684 * lt \<longrightarrow>
           res = finish (run_checks (drop 3 cs)))"
      unfolding d n by simp
  qed
  from floats numbers show ?thesis
    by (intro conjI) blast+
qed

text \<open>
  The theorem at a candidate on all three boundaries (rapidity -0.5 against 0.5, radius
  0.9 against 0.9, both sides of the lifetime cut 0), which is accepted, and at a
  candidate of radius 0.875, which is rejected.
\<close>

theorem cut_boundaries_inclusive_witness:
  "acceptV0 (default_config\<lparr>v0lifetime := Num 0\<rparr>) example_constants
     (example_v0\<lparr>yK0Short := Num (-0.5), v0radius := Num 0.9, distovertotmom := (\<lambda>x y z. Num 0)\<rparr>)
     example_negTrack example_posTrack example_collision = Inr True
   \<and> acceptV0 default_config example_constants (example_v0\<lparr>v0radius := Num 0.875\<rparr>)
     example_negTrack example_posTrack example_collision = Inr False"
proof -
  let ?cfg = "default_config\<lparr>v0lifetime := Num 0\<rparr>"
  let ?v0 = "example_v0\<lparr>yK0Short := Num (-0.5), v0radius := Num 0.9, distovertotmom := (\<lambda>x y z. Num 0)\<rparr>"
  have nums: "yK0Short ?v0 = Num (-0.5) \<and> v0setting_rapidity ?cfg = Num 0.5 \<and> v0radius ?v0 = Num 0.9 \<and>
      v0setting_radius ?cfg = Num 0.9 \<and>
      distovertotmom ?v0 (posX example_collision) (posY example_collision) (posZ example_collision) = Num 0 \<and>
      v0lifetime ?cfg = Num 0"
    by (simp add: example_defs)
  have on: "\<bar>- 0.5\<bar> \<le> (0.5::real) \<and> (0.9::real) \<ge> 0.9 \<and>
      0 * sMasses_K0 example_constants \<le> 2.684 * (0::real)"
    by simp
  have rest: "finish (run_checks (drop 3 (acceptV0_checks ?cfg example_constants ?v0
     example_negTrack example_posTrack example_collision))) = Inr True"
    by (simp add: acceptV0_checks_def itsIbSelection_def tofSelection_def trdSelection_def
        pidHypoSelection_def reject_if_def finish_simps example_defs)
  have off: "flt (v0radius (example_v0\<lparr>v0radius := Num 0.875\<rparr>)) (v0setting_radius default_config)"
    by (simp add: example_defs)
  note t = cut_boundaries_inclusive [OF refl refl refl refl]
  from t [THEN conjunct2, THEN conjunct2, THEN conjunct2, THEN conjunct2, THEN conjunct2,
      THEN conjunct2, THEN conjunct2, THEN mp, OF nums, THEN conjunct2, THEN conjunct2, THEN conjunct2,
      THEN conjunct2, THEN conjunct2, THEN conjunct2, THEN mp, OF on]
    t [THEN conjunct2, THEN conjunct2, THEN conjunct2, THEN conjunct2, THEN conjunct1, THEN mp, OF off]
    rest
  show ?thesis by simp
qed

section \<open>Properties of the two process functions\<close>

lemma fill_K0sResolution_eq:
  "fill_K0sResolution h xs regs =
     \<lparr>rK0sResolution = rK0sResolution regs @ [(h, xs)], rK0sDauResolution = rK0sDauResolution regs\<rparr>"
  by (simp add: fill_K0sResolution_def fill_def)

lemma fill_K0sDauResolution_eq:
  "fill_K0sDauResolution h xs regs =
     \<lparr>rK0sResolution = rK0sResolution regs, rK0sDauResolution = rK0sDauResolution regs @ [(h, xs)]\<rparr>"
  by (simp add: fill_K0sDauResolution_def fill_def)

lemma processData_v0_fatal:
  "acceptV0 cfg k v0 (negTrack v0) (posTrack v0) coll = Inl e \<Longrightarrow>
   processData_v0 cfg k coll v0 regs =
     Inl (e, \<lparr>rK0sResolution = rK0sResolution regs @ [(h1_events, [Some 1.5])],
              rK0sDauResolution = rK0sDauResolution regs\<rparr>)"
  by (simp add: processData_v0_def fill_K0sResolution_eq)

lemma processData_v0_rejected:
  "acceptV0 cfg k v0 (negTrack v0) (posTrack v0) coll = Inr False \<Longrightarrow>
   processData_v0 cfg k coll v0 regs =
     Inr \<lparr>rK0sResolution = rK0sResolution regs @ [(h1_events, [Some 1.5])],
          rK0sDauResolution = rK0sDauResolution regs\<rparr>"
  by (simp add: processData_v0_def fill_K0sResolution_eq)

lemma processData_v0_accepted:
  "acceptV0 cfg k v0 (negTrack v0) (posTrack v0) coll = Inr True \<Longrightarrow>
   processData_v0 cfg k coll v0 regs =
     Inr \<lparr>rK0sResolution = rK0sResolution regs @
            [(h1_events, [Some 1.5]),
             (h2_masspT, [Some (candidate_mass cfg k v0 (posTrack v0) (negTrack v0)), Some (pt v0)]),
             (h2_masseta, [Some (candidate_mass cfg k v0 (posTrack v0) (negTrack v0)), Some (eta v0)]),
             (h2_massphi, [Some (candidate_mass cfg k v0 (posTrack v0) (negTrack v0)), Some (phi v0)])] @
            (if useMultidimHisto cfg
             then [(thn_mass, [Some (candidate_mass cfg k v0 (posTrack v0) (negTrack v0)), Some (pt v0),
                               Some (eta v0), Some (phi v0),
                               Some (track_eta (posTrack v0)), Some (track_eta (negTrack v0))])]
             else []),
          rK0sDauResolution = rK0sDauResolution regs @
            (if enableTPCPlot cfg
             then [(h3_tpc_vs_pid_hypothesis,
                      [Some (tpcInnerParam (posTrack v0)), Some (tpcSignal (posTrack v0)),
                       Some (real (unat (pidForTracking (posTrack v0))))]),
                   (h3_tpc_vs_pid_hypothesis,
                      [Some (- tpcInnerParam (negTrack v0)), Some (tpcSignal (negTrack v0)),
                       Some (real (unat (pidForTracking (negTrack v0))))])]
             else [])\<rparr>"
  by (simp add: processData_v0_def Let_def fill_K0sResolution_eq fill_K0sDauResolution_eq)

lemma processMC_v0_fatal:
  "acceptV0 cfg k v0 (negTrack v0) (posTrack v0) coll = Inl e \<Longrightarrow>
   processMC_v0 cfg k coll v0 regs =
     Inl (e, \<lparr>rK0sResolution = rK0sResolution regs @ [(h1_events, [Some 1.5])],
              rK0sDauResolution = rK0sDauResolution regs\<rparr>)"
  by (simp add: processMC_v0_def fill_K0sResolution_eq)

lemma processMC_v0_skipped:
  "acceptV0 cfg k v0 (negTrack v0) (posTrack v0) coll = Inr b \<Longrightarrow> \<not> (b \<and> daughters_matched v0) \<Longrightarrow>
   processMC_v0 cfg k coll v0 regs =
     Inr \<lparr>rK0sResolution = rK0sResolution regs @ [(h1_events, [Some 1.5])],
          rK0sDauResolution = rK0sDauResolution regs\<rparr>"
  by (cases b; cases "track_mcParticle (posTrack v0)"; cases "track_mcParticle (negTrack v0)")
    (auto simp: processMC_v0_def daughters_matched_def fill_K0sResolution_eq Let_def)

lemma processMC_v0_accepted:
  assumes "acceptV0 cfg k v0 (negTrack v0) (posTrack v0) coll = Inr True"
    and "track_mcParticle (posTrack v0) = Some posMc" and "track_mcParticle (negTrack v0) = Some negMc"
    and "pdgCode posMc = 211" and "pdgCode negMc = -211"
  shows "processMC_v0 cfg k coll v0 regs =
     Inr \<lparr>rK0sResolution = rK0sResolution regs @
            [(h1_events, [Some 1.5]),
             (h2_masspT, [Some (candidate_mass cfg k v0 (posTrack v0) (negTrack v0)), Some (pt v0)]),
             (h2_masseta, [Some (candidate_mass cfg k v0 (posTrack v0) (negTrack v0)), Some (eta v0)]),
             (h2_massphi, [Some (candidate_mass cfg k v0 (posTrack v0) (negTrack v0)), Some (phi v0)])] @
            (if useMultidimHisto cfg
             then [(thn_mass, [Some (candidate_mass cfg k v0 (posTrack v0) (negTrack v0)), Some (pt v0),
                               Some (eta v0), Some (phi v0),
                               Some (track_eta (posTrack v0)), Some (track_eta (negTrack v0)),
                               fsub (fdiv 1 (positivept v0)) (fdiv 1 (mc_pt posMc)),
                               fsub (fdiv 1 (negativept v0)) (fdiv 1 (mc_pt negMc)),
                               Some (of_bool (\<exists>m. v0_mcParticle v0 = Some m \<and> pdgCode m = 310))])]
             else []),
          rK0sDauResolution = rK0sDauResolution regs @
            [(h2_genPtPosPtRes, [fdiv (positivept v0 - mc_pt posMc) (mc_pt posMc), Some (mc_pt posMc)]),
             (h2_genPxPosPxRes, [fdiv (pxpos v0 - mc_px posMc) (mc_px posMc), Some (mc_px posMc)]),
             (h2_genPyPosPyRes, [fdiv (pypos v0 - mc_py posMc) (mc_py posMc), Some (mc_py posMc)]),
             (h2_genPzPosPzRes, [fdiv (pzpos v0 - mc_pz posMc) (mc_pz posMc), Some (mc_pz posMc)]),
             (h2_genPtNegPtRes, [fdiv (negativept v0 - mc_pt negMc) (mc_pt negMc), Some (mc_pt negMc)]),
             (h2_genPxNegPxRes, [fdiv (pxneg v0 - mc_px negMc) (mc_px negMc), Some (mc_px negMc)]),
             (h2_genPyNegPyRes, [fdiv (pyneg v0 - mc_py negMc) (mc_py negMc), Some (mc_py negMc)]),
             (h2_genPzNegPzRes, [fdiv (pzneg v0 - mc_pz negMc) (mc_pz negMc), Some (mc_pz negMc)]),
             (h2_massPosPtRes, [Some (candidate_mass cfg k v0 (posTrack v0) (negTrack v0)),
                                Some (positivept v0 - mc_pt posMc)]),
             (h2_massNegPtRes, [Some (candidate_mass cfg k v0 (posTrack v0) (negTrack v0)),
                                Some (negativept v0 - mc_pt negMc)])]\<rparr>"
proof -
  have k0: "(case v0_mcParticle v0 of None \<Rightarrow> False | Some m \<Rightarrow> pdgCode m = 310)
      = (\<exists>m. v0_mcParticle v0 = Some m \<and> pdgCode m = 310)"
    by (simp split: option.splits)
  show ?thesis
    using assms
    by (simp add: processMC_v0_def Let_def k0 fill_K0sResolution_eq fill_K0sDauResolution_eq)
qed

text \<open>
  C3. In truth mode, a candidate that \<open>acceptV0\<close> accepts and of which a daughter has
  no truth link, or the positive daughter's true PDG code is not 211, or the negative
  daughter's is not -211, is skipped: the loop body leaves both registries as they were,
  but for the per-candidate tick 1.5 of the event counter, whatever the reconstructed
  kinematics.
\<close>

theorem unmatched_daughters_skipped:
  assumes "acceptV0 cfg k v0 (negTrack v0) (posTrack v0) coll = Inr True"
    and "track_mcParticle (posTrack v0) = None \<or> track_mcParticle (negTrack v0) = None \<or>
         (\<exists>p. track_mcParticle (posTrack v0) = Some p \<and> pdgCode p \<noteq> 211) \<or>
         (\<exists>n. track_mcParticle (negTrack v0) = Some n \<and> pdgCode n \<noteq> -211)"
  shows "processMC_v0 cfg k coll v0 regs =
     Inr \<lparr>rK0sResolution = rK0sResolution regs @ [(h1_events, [Some 1.5])],
          rK0sDauResolution = rK0sDauResolution regs\<rparr>"
proof -
  from assms(2) have "\<not> daughters_matched v0"
    by (auto simp: daughters_matched_def split: option.splits)
  then have "\<not> (True \<and> daughters_matched v0)"
    by simp
  with assms(1) show ?thesis
    by (rule processMC_v0_skipped)
qed

text \<open>
  The theorem at the example candidate with a positive daughter whose true particle is a
  kaon (PDG code 321), and with a negative daughter without truth link.
\<close>

theorem unmatched_daughters_skipped_witness:
  "processMC_v0 default_config example_constants example_collision
     (example_v0\<lparr>posTrack := example_posTrack\<lparr>track_mcParticle := Some (pion_plus\<lparr>pdgCode := 321\<rparr>)\<rparr>\<rparr>)
     empty_registries
   = Inr \<lparr>rK0sResolution = [(h1_events, [Some 1.5])], rK0sDauResolution = []\<rparr>
   \<and> processMC_v0 default_config example_constants example_collision
     (example_v0\<lparr>negTrack := example_negTrack\<lparr>track_mcParticle := None\<rparr>\<rparr>)
     empty_registries
   = Inr \<lparr>rK0sResolution = [(h1_events, [Some 1.5])], rK0sDauResolution = []\<rparr>"
proof -
  let ?kaon = "example_v0\<lparr>posTrack := example_posTrack\<lparr>track_mcParticle := Some (pion_plus\<lparr>pdgCode := 321\<rparr>)\<rparr>\<rparr>"
  let ?nolink = "example_v0\<lparr>negTrack := example_negTrack\<lparr>track_mcParticle := None\<rparr>\<rparr>"
  have acc1: "acceptV0 default_config example_constants ?kaon (negTrack ?kaon) (posTrack ?kaon) example_collision = Inr True"
    by (simp add: acceptV0_def acceptV0_checks_def itsIbSelection_def tofSelection_def trdSelection_def
      pidHypoSelection_def reject_if_def finish_simps example_defs)
  have acc2: "acceptV0 default_config example_constants ?nolink (negTrack ?nolink) (posTrack ?nolink) example_collision = Inr True"
    by (simp add: acceptV0_def acceptV0_checks_def itsIbSelection_def tofSelection_def trdSelection_def
      pidHypoSelection_def reject_if_def finish_simps example_defs)
  have un1: "track_mcParticle (posTrack ?kaon) = None \<or> track_mcParticle (negTrack ?kaon) = None \<or>
         (\<exists>p. track_mcParticle (posTrack ?kaon) = Some p \<and> pdgCode p \<noteq> 211) \<or>
         (\<exists>n. track_mcParticle (negTrack ?kaon) = Some n \<and> pdgCode n \<noteq> -211)"
    by (simp add: example_defs)
  have un2: "track_mcParticle (posTrack ?nolink) = None \<or> track_mcParticle (negTrack ?nolink) = None \<or>
         (\<exists>p. track_mcParticle (posTrack ?nolink) = Some p \<and> pdgCode p \<noteq> 211) \<or>
         (\<exists>n. track_mcParticle (negTrack ?nolink) = Some n \<and> pdgCode n \<noteq> -211)"
    by (simp add: example_defs)
  from unmatched_daughters_skipped [OF acc1 un1, of empty_registries]
    unmatched_daughters_skipped [OF acc2 un2, of empty_registries]
  show ?thesis
    by (simp add: empty_registries_def)
qed

text \<open>
  C10. In truth mode, a candidate that is accepted and whose daughters are matched to a
  true pion pair receives all its fills whatever its own truth link: the tick, the three
  mass histograms, the ten daughter histograms and, when enabled, the multi-dimensional
  histogram. The candidate's own link enters only as the last coordinate of the
  multi-dimensional fill, which is 0 when the link is missing or leads to a PDG code
  other than 310.
\<close>

theorem mother_truth_only_sets_flag:
  assumes "acceptV0 cfg k v0 (negTrack v0) (posTrack v0) coll = Inr True"
    and "track_mcParticle (posTrack v0) = Some posMc" and "track_mcParticle (negTrack v0) = Some negMc"
    and "pdgCode posMc = 211" and "pdgCode negMc = -211"
    and "mass = candidate_mass cfg k v0 (posTrack v0) (negTrack v0)"
    and "isTrueK0s = (\<exists>m. v0_mcParticle v0 = Some m \<and> pdgCode m = 310)"
  shows "processMC_v0 cfg k coll v0 regs =
     Inr \<lparr>rK0sResolution = rK0sResolution regs @
            [(h1_events, [Some 1.5]),
             (h2_masspT, [Some mass, Some (pt v0)]),
             (h2_masseta, [Some mass, Some (eta v0)]),
             (h2_massphi, [Some mass, Some (phi v0)])] @
            (if useMultidimHisto cfg
             then [(thn_mass, [Some mass, Some (pt v0), Some (eta v0), Some (phi v0),
                               Some (track_eta (posTrack v0)), Some (track_eta (negTrack v0)),
                               fsub (fdiv 1 (positivept v0)) (fdiv 1 (mc_pt posMc)),
                               fsub (fdiv 1 (negativept v0)) (fdiv 1 (mc_pt negMc)),
                               Some (if isTrueK0s then 1 else 0)])]
             else []),
          rK0sDauResolution = rK0sDauResolution regs @
            [(h2_genPtPosPtRes, [fdiv (positivept v0 - mc_pt posMc) (mc_pt posMc), Some (mc_pt posMc)]),
             (h2_genPxPosPxRes, [fdiv (pxpos v0 - mc_px posMc) (mc_px posMc), Some (mc_px posMc)]),
             (h2_genPyPosPyRes, [fdiv (pypos v0 - mc_py posMc) (mc_py posMc), Some (mc_py posMc)]),
             (h2_genPzPosPzRes, [fdiv (pzpos v0 - mc_pz posMc) (mc_pz posMc), Some (mc_pz posMc)]),
             (h2_genPtNegPtRes, [fdiv (negativept v0 - mc_pt negMc) (mc_pt negMc), Some (mc_pt negMc)]),
             (h2_genPxNegPxRes, [fdiv (pxneg v0 - mc_px negMc) (mc_px negMc), Some (mc_px negMc)]),
             (h2_genPyNegPyRes, [fdiv (pyneg v0 - mc_py negMc) (mc_py negMc), Some (mc_py negMc)]),
             (h2_genPzNegPzRes, [fdiv (pzneg v0 - mc_pz negMc) (mc_pz negMc), Some (mc_pz negMc)]),
             (h2_massPosPtRes, [Some mass, Some (positivept v0 - mc_pt posMc)]),
             (h2_massNegPtRes, [Some mass, Some (negativept v0 - mc_pt negMc)])]\<rparr>
    \<and> (v0_mcParticle v0 = None \<or> (\<exists>m. v0_mcParticle v0 = Some m \<and> pdgCode m \<noteq> 310) \<longrightarrow> \<not> isTrueK0s)"
proof -
  have flag: "of_bool isTrueK0s = (if isTrueK0s then 1 else (0::real))"
    by simp
  have "v0_mcParticle v0 = None \<or> (\<exists>m. v0_mcParticle v0 = Some m \<and> pdgCode m \<noteq> 310) \<longrightarrow> \<not> isTrueK0s"
    unfolding assms(7) by auto
  then show ?thesis
    unfolding processMC_v0_accepted [OF assms(1-5)] assms(6) assms(7) [symmetric] flag
    by simp
qed

text \<open>
  The theorem at the example candidate labelled as a Lambda (PDG code 3122), with the
  multi-dimensional histogram enabled: every histogram is filled, the last coordinate of
  \<open>thn_mass\<close> is 0.
\<close>

theorem mother_truth_only_sets_flag_witness:
  "processMC_v0 (default_config\<lparr>useMultidimHisto := True\<rparr>) example_constants example_collision
     (example_v0\<lparr>v0_mcParticle := Some \<lparr>pdgCode = 3122, mc_px = 0, mc_py = 2, mc_pz = 0.75, mc_pt = 2\<rparr>\<rparr>)
     empty_registries
   = Inr \<lparr>rK0sResolution =
            [(h1_events, [Some 1.5]),
             (h2_masspT, [Some 0.5, Some 2]),
             (h2_masseta, [Some 0.5, Some 0.25]),
             (h2_massphi, [Some 0.5, Some 1]),
             (thn_mass, [Some 0.5, Some 2, Some 0.25, Some 1, Some 0.25, Some 0.125,
                         Some (-0.2), Some (-0.2), Some 0])],
          rK0sDauResolution =
            [(h2_genPtPosPtRes, [Some 0.25, Some 1]),
             (h2_genPxPosPxRes, [Some (- 1 / 6), Some 0.6]),
             (h2_genPyPosPyRes, [Some 0.25, Some 0.8]),
             (h2_genPzPosPzRes, [Some 0, Some 0.5]),
             (h2_genPtNegPtRes, [Some 0.25, Some 1]),
             (h2_genPxNegPxRes, [Some (- 1 / 6), Some (-0.6)]),
             (h2_genPyNegPyRes, [Some 0.25, Some 0.8]),
             (h2_genPzNegPzRes, [Some 0, Some 0.25]),
             (h2_massPosPtRes, [Some 0.5, Some 0.25]),
             (h2_massNegPtRes, [Some 0.5, Some 0.25])]\<rparr>"
proof -
  let ?cfg = "default_config\<lparr>useMultidimHisto := True\<rparr>"
  let ?v0 = "example_v0\<lparr>v0_mcParticle := Some \<lparr>pdgCode = 3122, mc_px = 0, mc_py = 2, mc_pz = 0.75, mc_pt = 2\<rparr>\<rparr>"
  have acc: "acceptV0 ?cfg example_constants ?v0 (negTrack ?v0) (posTrack ?v0) example_collision = Inr True"
    by (simp add: acceptV0_def acceptV0_checks_def itsIbSelection_def tofSelection_def trdSelection_def
      pidHypoSelection_def reject_if_def finish_simps example_defs)
  have pos: "track_mcParticle (posTrack ?v0) = Some pion_plus"
    and neg: "track_mcParticle (negTrack ?v0) = Some pion_minus"
    and pdg: "pdgCode pion_plus = 211" "pdgCode pion_minus = -211"
    by (simp_all add: example_defs)
  show ?thesis
    unfolding mother_truth_only_sets_flag [OF acc pos neg pdg refl refl, of empty_registries, THEN conjunct1]
    by (simp add: candidate_mass_def fdiv_def fsub_def example_defs)
qed

lemma all_defined_append: "all_defined (xs @ ys) = (all_defined xs \<and> all_defined ys)"
  by (simp add: all_defined_def)

lemma fdiv_defined: "(fdiv a b = None) = (b = 0)"
  by (simp add: fdiv_def)

lemma fsub_defined: "(fsub a b = None) = (a = None \<or> b = None)"
  by (simp add: fsub_def split: option.splits)

text \<open>
  C9. For an accepted candidate with matched daughters in truth mode, the loop body
  divides by the true \<open>pt\<close>, \<open>px\<close>, \<open>py\<close> and \<open>pz\<close> of each daughter and, for the
  multi-dimensional fill, by the reconstructed and the true \<open>pt\<close> of each daughter, with
  no test of the divisor. When the eight true components and the two reconstructed
  transverse momenta are non-zero, no fill carries the outcome of a division by zero; when
  one of the eight true components is zero, a fill of the daughter registry does; and
  with the multi-dimensional histogram enabled, a zero reconstructed or true transverse
  momentum puts one into the other registry.
\<close>

theorem resolution_division_by_zero:
  assumes "acceptV0 cfg k v0 (negTrack v0) (posTrack v0) coll = Inr True"
    and "track_mcParticle (posTrack v0) = Some posMc" and "track_mcParticle (negTrack v0) = Some negMc"
    and "pdgCode posMc = 211" and "pdgCode negMc = -211"
    and "all_defined (rK0sResolution regs)" and "all_defined (rK0sDauResolution regs)"
  shows "\<exists>regs'. processMC_v0 cfg k coll v0 regs = Inr regs' \<and>
     (mc_pt posMc \<noteq> 0 \<and> mc_px posMc \<noteq> 0 \<and> mc_py posMc \<noteq> 0 \<and> mc_pz posMc \<noteq> 0 \<and>
      mc_pt negMc \<noteq> 0 \<and> mc_px negMc \<noteq> 0 \<and> mc_py negMc \<noteq> 0 \<and> mc_pz negMc \<noteq> 0 \<and>
      positivept v0 \<noteq> 0 \<and> negativept v0 \<noteq> 0 \<longrightarrow>
        all_defined (rK0sResolution regs') \<and> all_defined (rK0sDauResolution regs')) \<and>
     (mc_pt posMc = 0 \<or> mc_px posMc = 0 \<or> mc_py posMc = 0 \<or> mc_pz posMc = 0 \<or>
      mc_pt negMc = 0 \<or> mc_px negMc = 0 \<or> mc_py negMc = 0 \<or> mc_pz negMc = 0 \<longrightarrow>
        \<not> all_defined (rK0sDauResolution regs')) \<and>
     (useMultidimHisto cfg \<and>
      (positivept v0 = 0 \<or> negativept v0 = 0 \<or> mc_pt posMc = 0 \<or> mc_pt negMc = 0) \<longrightarrow>
        \<not> all_defined (rK0sResolution regs'))"
  unfolding processMC_v0_accepted [OF assms(1-5)]
  using assms(6,7)
  by (auto simp: all_defined_append fdiv_defined fsub_defined all_defined_def simp del: not_None_eq)

text \<open>
  The theorem at the example candidate, all of whose divisors are non-zero, and at the
  same candidate with the true \<open>px\<close> of the positive daughter set to zero, where a
  division by zero is reached.
\<close>

theorem resolution_division_by_zero_witness:
  "(case processMC_v0 (default_config\<lparr>useMultidimHisto := True\<rparr>) example_constants example_collision
          example_v0 empty_registries of
      Inl e \<Rightarrow> False
    | Inr regs' \<Rightarrow> all_defined (rK0sResolution regs') \<and> all_defined (rK0sDauResolution regs'))
   \<and> (case processMC_v0 (default_config\<lparr>useMultidimHisto := True\<rparr>) example_constants example_collision
          (example_v0\<lparr>posTrack := example_posTrack\<lparr>track_mcParticle := Some (pion_plus\<lparr>mc_px := 0\<rparr>)\<rparr>\<rparr>)
          empty_registries of
      Inl e \<Rightarrow> False
    | Inr regs' \<Rightarrow> \<not> all_defined (rK0sDauResolution regs'))"
proof -
  let ?cfg = "default_config\<lparr>useMultidimHisto := True\<rparr>"
  let ?v0 = "example_v0\<lparr>posTrack := example_posTrack\<lparr>track_mcParticle := Some (pion_plus\<lparr>mc_px := 0\<rparr>)\<rparr>\<rparr>"
  have acc: "acceptV0 ?cfg example_constants example_v0 (negTrack example_v0) (posTrack example_v0) example_collision = Inr True"
    "acceptV0 ?cfg example_constants ?v0 (negTrack ?v0) (posTrack ?v0) example_collision = Inr True"
    by (simp_all add: acceptV0_def acceptV0_checks_def itsIbSelection_def tofSelection_def trdSelection_def
      pidHypoSelection_def reject_if_def finish_simps example_defs)
  have links: "track_mcParticle (posTrack example_v0) = Some pion_plus"
    "track_mcParticle (negTrack example_v0) = Some pion_minus"
    "track_mcParticle (posTrack ?v0) = Some (pion_plus\<lparr>mc_px := 0\<rparr>)"
    "track_mcParticle (negTrack ?v0) = Some pion_minus"
    and pdg: "pdgCode pion_plus = 211" "pdgCode pion_minus = -211" "pdgCode (pion_plus\<lparr>mc_px := 0\<rparr>) = 211"
    and empty: "all_defined (rK0sResolution empty_registries)" "all_defined (rK0sDauResolution empty_registries)"
    by (simp_all add: example_defs all_defined_def)
  have nonzero: "mc_pt pion_plus \<noteq> 0 \<and> mc_px pion_plus \<noteq> 0 \<and> mc_py pion_plus \<noteq> 0 \<and> mc_pz pion_plus \<noteq> 0 \<and>
      mc_pt pion_minus \<noteq> 0 \<and> mc_px pion_minus \<noteq> 0 \<and> mc_py pion_minus \<noteq> 0 \<and> mc_pz pion_minus \<noteq> 0 \<and>
      positivept example_v0 \<noteq> 0 \<and> negativept example_v0 \<noteq> 0"
    by (simp add: example_defs)
  have zero: "mc_px (pion_plus\<lparr>mc_px := 0\<rparr>) = 0"
    by simp
  from resolution_division_by_zero [OF acc(1) links(1,2) pdg(1,2) empty] nonzero
  have a: "case processMC_v0 ?cfg example_constants example_collision example_v0 empty_registries of
      Inl e \<Rightarrow> False
    | Inr regs' \<Rightarrow> all_defined (rK0sResolution regs') \<and> all_defined (rK0sDauResolution regs')"
    by auto
  from resolution_division_by_zero [OF acc(2) links(3,4) pdg(3,2) empty] zero
  have b: "case processMC_v0 ?cfg example_constants example_collision ?v0 empty_registries of
      Inl e \<Rightarrow> False
    | Inr regs' \<Rightarrow> \<not> all_defined (rK0sDauResolution regs')"
    by auto
  from a b show ?thesis ..
qed

section \<open>Properties of whole events\<close>

lemma for_each_v0_sum:
  fixes f :: "registries \<Rightarrow> nat"
  assumes body: "\<And>v regs r. body v regs = Inr r \<Longrightarrow> f r = f regs + d v"
  shows "for_each_v0 body vs regs = Inr r \<Longrightarrow> f r = f regs + sum_list (map d vs)"
proof (induction vs arbitrary: regs)
  case Nil
  then show ?case by simp
next
  case (Cons v vs)
  from Cons.prems obtain r1 where r1: "body v regs = Inr r1" and rest: "for_each_v0 body vs r1 = Inr r"
    by (auto split: sum.splits)
  from body [OF r1] Cons.IH [OF rest] show ?case
    by simp
qed

lemma for_each_v0_returns:
  assumes body: "\<And>v regs. \<exists>r. body v regs = Inr r"
  shows "\<exists>r. for_each_v0 body vs regs = Inr r"
proof (induction vs arbitrary: regs)
  case Nil
  show ?case by simp
next
  case (Cons v vs)
  from body obtain r1 where "body v regs = Inr r1"
    by blast
  with Cons.IH [of r1] show ?case
    by simp
qed

lemma sum_list_ticks:
  "sum_list (map (\<lambda>v. a + (if P v then c else 0)) vs) = length vs * a + length (filter P vs) * (c::nat)"
  by (induction vs) simp_all

lemma count_fills_append: "count_fills h (xs @ ys) = count_fills h xs + count_fills h ys"
  by (simp add: count_fills_def)

lemma count_fills_Cons: "count_fills h ((h', xs) # r) = (if h' = h then 1 else 0) + count_fills h r"
  by (simp add: count_fills_def)

lemma count_fills_Nil: "count_fills h [] = 0"
  by (simp add: count_fills_def)

lemma acceptV0_valid_returns:
  assumes "valid_switches cfg"
  shows "\<exists>b. acceptV0 cfg k v0 ntrack ptrack coll = Inr b"
proof -
  from assms have v: "itsIbSelectionPos cfg \<in> {-1, 0, 1}" "itsIbSelectionNeg cfg \<in> {-1, 0, 1}"
    "tofSelectionPos cfg \<in> {-1, 0, 1}" "tofSelectionNeg cfg \<in> {-1, 0, 1}"
    "trdSelectionPos cfg \<in> {-1, 0, 1}" "trdSelectionNeg cfg \<in> {-1, 0, 1}"
    "pidHypoPos cfg \<in> {-1, 0, 1, 2, 3, 4}" "pidHypoNeg cfg \<in> {-1, 0, 1, 2, 3, 4}"
    by (simp_all add: valid_switches_def)
  note valid = itsIbSelection_valid [OF v(1)] itsIbSelection_valid [OF v(2)]
    tofSelection_valid [OF v(3)] tofSelection_valid [OF v(4)]
    trdSelection_valid [OF v(5)] trdSelection_valid [OF v(6)]
    pidHypoSelection_valid [OF v(7)] pidHypoSelection_valid [OF v(8)]
  have "\<forall>c \<in> set (acceptV0_checks cfg k v0 ntrack ptrack coll). c = Next \<or> c = Return False"
    unfolding acceptV0_checks_def valid
    by (simp only: list.set ball_simps reject_if_flow simp_thms)
  from finish_run_rejects [OF this] show ?thesis
    unfolding acceptV0_def by blast
qed

lemma processData_v0_total:
  assumes "processData_v0 cfg k coll v regs = Inr r"
  shows "total_fills h r = total_fills h regs +
           ((if h = h1_events then 1 else 0) + (if accepted cfg k coll v then data_fills_per_accepted cfg h else 0))"
proof (cases "acceptV0 cfg k v (negTrack v) (posTrack v) coll")
  case (Inl e)
  with assms show ?thesis
    by (simp add: processData_v0_fatal)
next
  case (Inr b)
  show ?thesis
  proof (cases b)
    case True
    with Inr have acc: "acceptV0 cfg k v (negTrack v) (posTrack v) coll = Inr True"
      by simp
    from assms have r: "r = projr (processData_v0 cfg k coll v regs)"
      by simp
    show ?thesis
      unfolding r processData_v0_accepted [OF acc]
      by (cases h) (simp_all add: total_fills_def accepted_def acc data_fills_per_accepted_def
          count_fills_append count_fills_Cons count_fills_Nil)
  next
    case False
    with Inr have rej: "acceptV0 cfg k v (negTrack v) (posTrack v) coll = Inr False"
      by simp
    from assms have r: "r = projr (processData_v0 cfg k coll v regs)"
      by simp
    show ?thesis
      unfolding r processData_v0_rejected [OF rej]
      by (simp add: total_fills_def accepted_def rej count_fills_append count_fills_Cons count_fills_Nil)
  qed
qed

lemma daughters_matchedD:
  assumes "daughters_matched v"
  obtains posMc negMc where "track_mcParticle (posTrack v) = Some posMc"
    and "track_mcParticle (negTrack v) = Some negMc" and "pdgCode posMc = 211" and "pdgCode negMc = -211"
  using assms by (auto simp: daughters_matched_def split: option.splits)

lemma processMC_v0_total:
  assumes "processMC_v0 cfg k coll v regs = Inr r"
  shows "total_fills h r = total_fills h regs +
           ((if h = h1_events then 1 else 0) +
            (if accepted cfg k coll v \<and> daughters_matched v then mc_fills_per_accepted cfg h else 0))"
proof (cases "acceptV0 cfg k v (negTrack v) (posTrack v) coll")
  case (Inl e)
  with assms show ?thesis
    by (simp add: processMC_v0_fatal)
next
  case (Inr b)
  from assms have r: "r = projr (processMC_v0 cfg k coll v regs)"
    by simp
  show ?thesis
  proof (cases "b \<and> daughters_matched v")
    case True
    with Inr have acc: "acceptV0 cfg k v (negTrack v) (posTrack v) coll = Inr True"
      by simp
    from True obtain posMc negMc where m: "track_mcParticle (posTrack v) = Some posMc"
      "track_mcParticle (negTrack v) = Some negMc" "pdgCode posMc = 211" "pdgCode negMc = -211"
      by (auto elim: daughters_matchedD)
    from True have dm: "daughters_matched v"
      by simp
    show ?thesis
      unfolding r processMC_v0_accepted [OF acc m]
      by (cases h) (simp_all add: total_fills_def accepted_def acc dm mc_fills_per_accepted_def
          count_fills_append count_fills_Cons count_fills_Nil)
  next
    case False
    then have no: "\<not> (accepted cfg k coll v \<and> daughters_matched v)"
      using Inr by (auto simp: accepted_def)
    show ?thesis
      unfolding r processMC_v0_skipped [OF Inr False]
      using no by (auto simp: total_fills_def count_fills_append count_fills_Cons count_fills_Nil)
  qed
qed

lemma processData_v0_ticks:
  assumes "processData_v0 cfg k coll v regs = Inr r"
  shows "count_list (rK0sResolution r) (h1_events, [Some 0.5]) = count_list (rK0sResolution regs) (h1_events, [Some 0.5]) + 0"
    and "count_list (rK0sResolution r) (h1_events, [Some 1.5]) = count_list (rK0sResolution regs) (h1_events, [Some 1.5]) + 1"
proof -
  from assms have r: "r = projr (processData_v0 cfg k coll v regs)"
    by simp
  from assms obtain b where b: "acceptV0 cfg k v (negTrack v) (posTrack v) coll = Inr b"
    by (cases "acceptV0 cfg k v (negTrack v) (posTrack v) coll") (simp_all add: processData_v0_fatal)
  show "count_list (rK0sResolution r) (h1_events, [Some 0.5]) = count_list (rK0sResolution regs) (h1_events, [Some 0.5]) + 0"
    using b unfolding r by (cases b) (simp_all add: processData_v0_accepted processData_v0_rejected)
  show "count_list (rK0sResolution r) (h1_events, [Some 1.5]) = count_list (rK0sResolution regs) (h1_events, [Some 1.5]) + 1"
    using b unfolding r by (cases b) (simp_all add: processData_v0_accepted processData_v0_rejected)
qed

lemma processMC_v0_ticks:
  assumes "processMC_v0 cfg k coll v regs = Inr r"
  shows "count_list (rK0sResolution r) (h1_events, [Some 0.5]) = count_list (rK0sResolution regs) (h1_events, [Some 0.5]) + 0"
    and "count_list (rK0sResolution r) (h1_events, [Some 1.5]) = count_list (rK0sResolution regs) (h1_events, [Some 1.5]) + 1"
proof -
  from assms have r: "r = projr (processMC_v0 cfg k coll v regs)"
    by simp
  from assms obtain b where b: "acceptV0 cfg k v (negTrack v) (posTrack v) coll = Inr b"
    by (cases "acceptV0 cfg k v (negTrack v) (posTrack v) coll") (simp_all add: processMC_v0_fatal)
  have "count_list (rK0sResolution r) (h1_events, [Some 0.5]) = count_list (rK0sResolution regs) (h1_events, [Some 0.5]) + 0
      \<and> count_list (rK0sResolution r) (h1_events, [Some 1.5]) = count_list (rK0sResolution regs) (h1_events, [Some 1.5]) + 1"
  proof (cases "b \<and> daughters_matched v")
    case True
    with b have acc: "acceptV0 cfg k v (negTrack v) (posTrack v) coll = Inr True"
      by simp
    from True obtain posMc negMc where m: "track_mcParticle (posTrack v) = Some posMc"
      "track_mcParticle (negTrack v) = Some negMc" "pdgCode posMc = 211" "pdgCode negMc = -211"
      by (auto elim: daughters_matchedD)
    show ?thesis
      unfolding r processMC_v0_accepted [OF acc m] by simp
  next
    case False
    show ?thesis
      unfolding r processMC_v0_skipped [OF b False] by simp
  qed
  then show "count_list (rK0sResolution r) (h1_events, [Some 0.5]) = count_list (rK0sResolution regs) (h1_events, [Some 0.5]) + 0"
    and "count_list (rK0sResolution r) (h1_events, [Some 1.5]) = count_list (rK0sResolution regs) (h1_events, [Some 1.5]) + 1"
    by simp_all
qed

lemma processData_v0_returns:
  "valid_switches cfg \<Longrightarrow> \<exists>r. processData_v0 cfg k coll v regs = Inr r"
  using acceptV0_valid_returns [of cfg k v "negTrack v" "posTrack v" coll]
  by (auto simp: processData_v0_def Let_def)

lemma processMC_v0_returns:
  assumes "valid_switches cfg"
  shows "\<exists>r. processMC_v0 cfg k coll v regs = Inr r"
proof -
  from acceptV0_valid_returns [OF assms] obtain b
    where b: "acceptV0 cfg k v (negTrack v) (posTrack v) coll = Inr b"
    by blast
  show ?thesis
  proof (cases "b \<and> daughters_matched v")
    case True
    with b have acc: "acceptV0 cfg k v (negTrack v) (posTrack v) coll = Inr True"
      by simp
    from True obtain posMc negMc where m: "track_mcParticle (posTrack v) = Some posMc"
      "track_mcParticle (negTrack v) = Some negMc" "pdgCode posMc = 211" "pdgCode negMc = -211"
      by (auto elim: daughters_matchedD)
    show ?thesis
      unfolding processMC_v0_accepted [OF acc m] by blast
  next
    case False
    show ?thesis
      unfolding processMC_v0_skipped [OF b False] by blast
  qed
qed

lemma fill_tick_total:
  "total_fills h (fill_K0sResolution h1_events xs regs) = total_fills h regs + (if h = h1_events then 1 else 0)"
  by (simp add: fill_K0sResolution_eq total_fills_def count_fills_append count_fills_Cons count_fills_Nil)

text \<open>
  C7, as amended. In each mode, when the run of an event does not end in the fatal error,
  the event counter receives exactly one fill at 0.5 for the event, also when there is
  no candidate, and exactly one fill at 1.5 for each candidate of the pre-filtered
  sequence, accepted or not. A candidate that is rejected or skipped adds nothing else.
  An accepted candidate (in truth mode: accepted with matched daughters) adds exactly one
  fill to each of the three mass histograms, one to the multi-dimensional histogram when
  it is enabled, in truth mode one to each of the ten daughter histograms, and in data
  mode two fills, one per daughter, to the TPC plot when it is enabled; truth mode never
  fills the TPC plot. No histogram receives any other fill. With valid switches neither
  mode ends in the fatal error. The tick of a candidate is made before \<open>acceptV0\<close>
  decides: it is in the registry also when \<open>acceptV0\<close> ends in the fatal error.
\<close>

theorem fills_per_event:
  "(processData cfg k coll fullV0s regs = Inr regsD \<longrightarrow>
      count_list (rK0sResolution regsD) (h1_events, [Some 0.5])
        = count_list (rK0sResolution regs) (h1_events, [Some 0.5]) + 1 \<and>
      count_list (rK0sResolution regsD) (h1_events, [Some 1.5])
        = count_list (rK0sResolution regs) (h1_events, [Some 1.5]) + length fullV0s \<and>
      (\<forall>h. total_fills h regsD
        = total_fills h regs + (if h = h1_events then 1 + length fullV0s else 0)
          + length (filter (accepted cfg k coll) fullV0s) * data_fills_per_accepted cfg h)) \<and>
   (processMC cfg k coll fullV0s regs = Inr regsM \<longrightarrow>
      count_list (rK0sResolution regsM) (h1_events, [Some 0.5])
        = count_list (rK0sResolution regs) (h1_events, [Some 0.5]) + 1 \<and>
      count_list (rK0sResolution regsM) (h1_events, [Some 1.5])
        = count_list (rK0sResolution regs) (h1_events, [Some 1.5]) + length fullV0s \<and>
      (\<forall>h. total_fills h regsM
        = total_fills h regs + (if h = h1_events then 1 + length fullV0s else 0)
          + length (filter (\<lambda>v. accepted cfg k coll v \<and> daughters_matched v) fullV0s)
            * mc_fills_per_accepted cfg h)) \<and>
   (valid_switches cfg \<longrightarrow>
      (\<exists>r. processData cfg k coll fullV0s regs = Inr r) \<and>
      (\<exists>r. processMC cfg k coll fullV0s regs = Inr r)) \<and>
   (acceptV0 cfg k v (negTrack v) (posTrack v) coll = Inl e \<longrightarrow>
      processData_v0 cfg k coll v regs =
        Inl (e, \<lparr>rK0sResolution = rK0sResolution regs @ [(h1_events, [Some 1.5])],
                 rK0sDauResolution = rK0sDauResolution regs\<rparr>) \<and>
      processMC_v0 cfg k coll v regs =
        Inl (e, \<lparr>rK0sResolution = rK0sResolution regs @ [(h1_events, [Some 1.5])],
                 rK0sDauResolution = rK0sDauResolution regs\<rparr>))"
proof (intro conjI impI allI)
  let ?start = "fill_K0sResolution h1_events [Some 0.5] regs"
  let ?t05 = "\<lambda>r. count_list (rK0sResolution r) (h1_events, [Some 0.5])"
  let ?t15 = "\<lambda>r. count_list (rK0sResolution r) (h1_events, [Some 1.5])"
  have start05: "?t05 ?start = ?t05 regs + 1" and start15: "?t15 ?start = ?t15 regs"
    by (simp_all add: fill_K0sResolution_eq)
  {
    assume d: "processData cfg k coll fullV0s regs = Inr regsD"
    then have run: "for_each_v0 (processData_v0 cfg k coll) fullV0s ?start = Inr regsD"
      by (simp add: processData_def)
    have "?t05 regsD = ?t05 ?start + sum_list (map (\<lambda>v. 0) fullV0s)"
      by (rule for_each_v0_sum [where f = ?t05, OF _ run]) (erule processData_v0_ticks(1))
    then show "count_list (rK0sResolution regsD) (h1_events, [Some 0.5])
        = count_list (rK0sResolution regs) (h1_events, [Some 0.5]) + 1"
      using start05 by simp
    have "?t15 regsD = ?t15 ?start + sum_list (map (\<lambda>v. 1) fullV0s)"
      by (rule for_each_v0_sum [where f = ?t15, OF _ run]) (erule processData_v0_ticks(2))
    then show "count_list (rK0sResolution regsD) (h1_events, [Some 1.5])
        = count_list (rK0sResolution regs) (h1_events, [Some 1.5]) + length fullV0s"
      using start15 by (simp add: sum_list_triv)
    fix h
    have "total_fills h regsD = total_fills h ?start + sum_list (map
        (\<lambda>v. (if h = h1_events then 1 else 0) + (if accepted cfg k coll v then data_fills_per_accepted cfg h else 0))
        fullV0s)"
      by (rule for_each_v0_sum [where f = "total_fills h", OF _ run]) (erule processData_v0_total)
    then show "total_fills h regsD
        = total_fills h regs + (if h = h1_events then 1 + length fullV0s else 0)
          + length (filter (accepted cfg k coll) fullV0s) * data_fills_per_accepted cfg h"
      by (simp add: sum_list_ticks fill_tick_total)
  }
  {
    assume m: "processMC cfg k coll fullV0s regs = Inr regsM"
    then have run: "for_each_v0 (processMC_v0 cfg k coll) fullV0s ?start = Inr regsM"
      by (simp add: processMC_def)
    have "?t05 regsM = ?t05 ?start + sum_list (map (\<lambda>v. 0) fullV0s)"
      by (rule for_each_v0_sum [where f = ?t05, OF _ run]) (erule processMC_v0_ticks(1))
    then show "count_list (rK0sResolution regsM) (h1_events, [Some 0.5])
        = count_list (rK0sResolution regs) (h1_events, [Some 0.5]) + 1"
      using start05 by simp
    have "?t15 regsM = ?t15 ?start + sum_list (map (\<lambda>v. 1) fullV0s)"
      by (rule for_each_v0_sum [where f = ?t15, OF _ run]) (erule processMC_v0_ticks(2))
    then show "count_list (rK0sResolution regsM) (h1_events, [Some 1.5])
        = count_list (rK0sResolution regs) (h1_events, [Some 1.5]) + length fullV0s"
      using start15 by (simp add: sum_list_triv)
    fix h
    have "total_fills h regsM = total_fills h ?start + sum_list (map
        (\<lambda>v. (if h = h1_events then 1 else 0) +
             (if accepted cfg k coll v \<and> daughters_matched v then mc_fills_per_accepted cfg h else 0))
        fullV0s)"
      by (rule for_each_v0_sum [where f = "total_fills h", OF _ run]) (erule processMC_v0_total)
    then show "total_fills h regsM
        = total_fills h regs + (if h = h1_events then 1 + length fullV0s else 0)
          + length (filter (\<lambda>v. accepted cfg k coll v \<and> daughters_matched v) fullV0s)
            * mc_fills_per_accepted cfg h"
      by (simp add: sum_list_ticks fill_tick_total)
  }
  {
    assume fatal: "acceptV0 cfg k v (negTrack v) (posTrack v) coll = Inl e"
    then show "processData_v0 cfg k coll v regs =
        Inl (e, \<lparr>rK0sResolution = rK0sResolution regs @ [(h1_events, [Some 1.5])],
                 rK0sDauResolution = rK0sDauResolution regs\<rparr>)"
      by (rule processData_v0_fatal)
    from fatal show "processMC_v0 cfg k coll v regs =
        Inl (e, \<lparr>rK0sResolution = rK0sResolution regs @ [(h1_events, [Some 1.5])],
                 rK0sDauResolution = rK0sDauResolution regs\<rparr>)"
      by (rule processMC_v0_fatal)
  }
  {
    assume v: "valid_switches cfg"
    show "\<exists>r. processData cfg k coll fullV0s regs = Inr r"
      unfolding processData_def
      by (rule for_each_v0_returns) (rule processData_v0_returns [OF v])
    show "\<exists>r. processMC cfg k coll fullV0s regs = Inr r"
      unfolding processMC_def
      by (rule for_each_v0_returns) (rule processMC_v0_returns [OF v])
  }
qed

lemmas acceptV0_eval_defs = acceptV0_def acceptV0_checks_def itsIbSelection_def tofSelection_def
  trdSelection_def pidHypoSelection_def reject_if_def finish_simps

text \<open>
  The theorem at an event of two candidates, the example candidate and a copy of radius
  0.5 that is rejected, with the multi-dimensional histogram and the TPC plot enabled.
\<close>

theorem fills_per_event_witness:
  "(case processData (default_config\<lparr>useMultidimHisto := True, enableTPCPlot := True\<rparr>) example_constants
          example_collision [example_v0, example_v0\<lparr>v0radius := Num 0.5\<rparr>] empty_registries of
      Inl e \<Rightarrow> False
    | Inr r \<Rightarrow> total_fills h1_events r = 3 \<and> total_fills h2_masspT r = 1 \<and> total_fills thn_mass r = 1 \<and>
        total_fills h3_tpc_vs_pid_hypothesis r = 2 \<and> total_fills h2_genPtPosPtRes r = 0)
   \<and> (case processMC (default_config\<lparr>useMultidimHisto := True, enableTPCPlot := True\<rparr>) example_constants
          example_collision [example_v0, example_v0\<lparr>v0radius := Num 0.5\<rparr>] empty_registries of
      Inl e \<Rightarrow> False
    | Inr r \<Rightarrow> total_fills h1_events r = 3 \<and> total_fills h2_masspT r = 1 \<and> total_fills thn_mass r = 1 \<and>
        total_fills h3_tpc_vs_pid_hypothesis r = 0 \<and> total_fills h2_genPtPosPtRes r = 1)"
proof -
  let ?cfg = "default_config\<lparr>useMultidimHisto := True, enableTPCPlot := True\<rparr>"
  let ?vs = "[example_v0, example_v0\<lparr>v0radius := Num 0.5\<rparr>]"
  have valid: "valid_switches ?cfg"
    by (simp add: valid_switches_def default_config_def)
  have acc: "filter (accepted ?cfg example_constants example_collision) ?vs = [example_v0]"
    by (simp add: accepted_def acceptV0_eval_defs example_defs)
  have mat: "filter (\<lambda>v. accepted ?cfg example_constants example_collision v \<and> daughters_matched v) ?vs
      = [example_v0]"
    by (simp add: accepted_def daughters_matched_def acceptV0_eval_defs example_defs)
  have empty: "total_fills h empty_registries = 0" for h
    by (simp add: total_fills_def count_fills_def empty_registries_def)
  from fills_per_event [of ?cfg example_constants example_collision ?vs empty_registries,
      THEN conjunct2, THEN conjunct2, THEN conjunct1, THEN mp, OF valid]
  obtain rD rM where rD: "processData ?cfg example_constants example_collision ?vs empty_registries = Inr rD"
    and rM: "processMC ?cfg example_constants example_collision ?vs empty_registries = Inr rM"
    by blast
  from fills_per_event [of ?cfg example_constants example_collision ?vs empty_registries rD,
      THEN conjunct1, THEN mp, OF rD, THEN conjunct2, THEN conjunct2]
  have d: "total_fills h rD = (if h = h1_events then 3 else 0) + data_fills_per_accepted ?cfg h" for h
    unfolding acc empty by simp
  from fills_per_event [of ?cfg example_constants example_collision ?vs empty_registries _ rM,
      THEN conjunct2, THEN conjunct1, THEN mp, OF rM, THEN conjunct2, THEN conjunct2]
  have m: "total_fills h rM = (if h = h1_events then 3 else 0) + mc_fills_per_accepted ?cfg h" for h
    unfolding mat empty by simp
  show ?thesis
    unfolding rD rM by (simp add: d m data_fills_per_accepted_def mc_fills_per_accepted_def default_config_def)
qed

text \<open>
  C7 as stated fails: with the TPC plot enabled, \<open>init\<close> registers
  \<open>h3_tpc_vs_pid_hypothesis\<close> and one accepted candidate in data mode puts two fills
  into it, not one.
\<close>

theorem one_fill_per_histogram_counterexample:
  "accepted (default_config\<lparr>enableTPCPlot := True\<rparr>) example_constants example_collision example_v0
   \<and> init_K0sDauResolution (default_config\<lparr>enableTPCPlot := True\<rparr>)
       = [(h3_tpc_vs_pid_hypothesis, [tpcMomentumAxis, tpcSignalAxis, pidHypothesisAxis])]
   \<and> processData (default_config\<lparr>enableTPCPlot := True\<rparr>) example_constants example_collision
       [example_v0] empty_registries
     = Inr \<lparr>rK0sResolution =
              [(h1_events, [Some 0.5]),
               (h1_events, [Some 1.5]),
               (h2_masspT, [Some 0.5, Some 2]),
               (h2_masseta, [Some 0.5, Some 0.25]),
               (h2_massphi, [Some 0.5, Some 1])],
            rK0sDauResolution =
              [(h3_tpc_vs_pid_hypothesis, [Some 1.25, Some 50, Some 2]),
               (h3_tpc_vs_pid_hypothesis, [Some (-1), Some 60, Some 2])]\<rparr>"
proof -
  let ?cfg = "default_config\<lparr>enableTPCPlot := True\<rparr>"
  have acc: "acceptV0 ?cfg example_constants example_v0 (negTrack example_v0) (posTrack example_v0)
      example_collision = Inr True"
    by (simp add: acceptV0_eval_defs example_defs)
  have init: "init_K0sDauResolution ?cfg
       = [(h3_tpc_vs_pid_hypothesis, [tpcMomentumAxis, tpcSignalAxis, pidHypothesisAxis])]"
    by (simp add: init_K0sDauResolution_def default_config_def)
  have run: "processData ?cfg example_constants example_collision [example_v0] empty_registries
     = Inr \<lparr>rK0sResolution =
              [(h1_events, [Some 0.5]),
               (h1_events, [Some 1.5]),
               (h2_masspT, [Some 0.5, Some 2]),
               (h2_masseta, [Some 0.5, Some 0.25]),
               (h2_massphi, [Some 0.5, Some 1])],
            rK0sDauResolution =
              [(h3_tpc_vs_pid_hypothesis, [Some 1.25, Some 50, Some 2]),
               (h3_tpc_vs_pid_hypothesis, [Some (-1), Some 60, Some 2])]\<rparr>"
    unfolding processData_def for_each_v0.simps processData_v0_accepted [OF acc]
    by (simp add: fill_K0sResolution_eq candidate_mass_def example_defs)
  from acc init run show ?thesis
    by (simp add: accepted_def)
qed

text \<open>
  C2. The mass of an accepted candidate is the candidate's \<open>mK0Short\<close> when
  \<open>computeInvMassFromDaughters\<close> is off, and otherwise
  \<open>sqrt((E1 + E2)^2 - |p1 + p2|^2)\<close> with \<open>E_i = sqrt(|p_i|^2 + m_pion^2)\<close>, computed from
  the momenta of the two daughter tracks. In data mode and, for matched daughters, in
  truth mode, the loop body fills the three mass histograms (and the multi-dimensional
  one when enabled, and in truth mode the two mass-versus-residual histograms), and every
  fill it makes into a histogram whose first axis is the mass axis carries that value as
  its first coordinate.
\<close>

theorem mass_value_filled:
  assumes acc: "acceptV0 cfg k v0 (negTrack v0) (posTrack v0) coll = Inr True"
    and p: "p = posTrack v0" and n: "n = negTrack v0"
    and mass: "mass =
      (if computeInvMassFromDaughters cfg
       then sqrt ((sqrt ((px p)\<^sup>2 + (py p)\<^sup>2 + (pz p)\<^sup>2 + (MassPionCharged k)\<^sup>2)
                   + sqrt ((px n)\<^sup>2 + (py n)\<^sup>2 + (pz n)\<^sup>2 + (MassPionCharged k)\<^sup>2))\<^sup>2
                  - ((px p + px n)\<^sup>2 + (py p + py n)\<^sup>2 + (pz p + pz n)\<^sup>2))
       else mK0Short v0)"
  shows "candidate_mass cfg k v0 (posTrack v0) (negTrack v0) = mass \<and>
     (\<exists>rs ds. processData_v0 cfg k coll v0 regs =
          Inr \<lparr>rK0sResolution = rK0sResolution regs @ rs, rK0sDauResolution = rK0sDauResolution regs @ ds\<rparr> \<and>
        {h2_masspT, h2_masseta, h2_massphi} \<subseteq> fst ` set rs \<and>
        (useMultidimHisto cfg \<longrightarrow> thn_mass \<in> fst ` set rs) \<and>
        (\<forall>(h, xs) \<in> set rs \<union> set ds. h \<in> mass_histograms \<longrightarrow> xs \<noteq> [] \<and> hd xs = Some mass)) \<and>
     (daughters_matched v0 \<longrightarrow>
      (\<exists>rs ds. processMC_v0 cfg k coll v0 regs =
          Inr \<lparr>rK0sResolution = rK0sResolution regs @ rs, rK0sDauResolution = rK0sDauResolution regs @ ds\<rparr> \<and>
        {h2_masspT, h2_masseta, h2_massphi} \<subseteq> fst ` set rs \<and>
        {h2_massPosPtRes, h2_massNegPtRes} \<subseteq> fst ` set ds \<and>
        (useMultidimHisto cfg \<longrightarrow> thn_mass \<in> fst ` set rs) \<and>
        (\<forall>(h, xs) \<in> set rs \<union> set ds. h \<in> mass_histograms \<longrightarrow> xs \<noteq> [] \<and> hd xs = Some mass))) \<and>
     (\<forall>(h, axes) \<in> set (init_K0sResolution cfg) \<union> set (init_K0sDauResolution cfg).
        (hd axes = mAxis) = (h \<in> mass_histograms))"
proof (intro conjI impI)
  show m: "candidate_mass cfg k v0 (posTrack v0) (negTrack v0) = mass"
    unfolding mass p n by (simp add: candidate_mass_def RecoDecay_m_def RecoDecay_e_def)
  show "\<exists>rs ds. processData_v0 cfg k coll v0 regs =
          Inr \<lparr>rK0sResolution = rK0sResolution regs @ rs, rK0sDauResolution = rK0sDauResolution regs @ ds\<rparr> \<and>
        {h2_masspT, h2_masseta, h2_massphi} \<subseteq> fst ` set rs \<and>
        (useMultidimHisto cfg \<longrightarrow> thn_mass \<in> fst ` set rs) \<and>
        (\<forall>(h, xs) \<in> set rs \<union> set ds. h \<in> mass_histograms \<longrightarrow> xs \<noteq> [] \<and> hd xs = Some mass)"
    unfolding processData_v0_accepted [OF acc] m
    by (intro exI conjI, rule refl) (auto simp: mass_histograms_def)
  show "\<forall>(h, axes) \<in> set (init_K0sResolution cfg) \<union> set (init_K0sDauResolution cfg).
        (hd axes = mAxis) = (h \<in> mass_histograms)"
    by (auto simp: init_K0sResolution_def init_K0sDauResolution_def mass_histograms_def)
next
  assume "daughters_matched v0"
  then obtain posMc negMc where l: "track_mcParticle (posTrack v0) = Some posMc"
      "track_mcParticle (negTrack v0) = Some negMc" "pdgCode posMc = 211" "pdgCode negMc = -211"
    by (auto elim: daughters_matchedD)
  have m: "candidate_mass cfg k v0 (posTrack v0) (negTrack v0) = mass"
    unfolding mass p n by (simp add: candidate_mass_def RecoDecay_m_def RecoDecay_e_def)
  show "\<exists>rs ds. processMC_v0 cfg k coll v0 regs =
          Inr \<lparr>rK0sResolution = rK0sResolution regs @ rs, rK0sDauResolution = rK0sDauResolution regs @ ds\<rparr> \<and>
        {h2_masspT, h2_masseta, h2_massphi} \<subseteq> fst ` set rs \<and>
        {h2_massPosPtRes, h2_massNegPtRes} \<subseteq> fst ` set ds \<and>
        (useMultidimHisto cfg \<longrightarrow> thn_mass \<in> fst ` set rs) \<and>
        (\<forall>(h, xs) \<in> set rs \<union> set ds. h \<in> mass_histograms \<longrightarrow> xs \<noteq> [] \<and> hd xs = Some mass)"
    unfolding processMC_v0_accepted [OF acc l] m
    by (intro exI conjI, rule refl) (auto simp: mass_histograms_def)
qed

text \<open>
  The theorem at the example candidate: the stored mass 0.5 with the toggle off, the
  recomputed mass with the toggle on, which truth mode fills into \<open>h2_massPosPtRes\<close>.
\<close>

theorem mass_value_filled_witness:
  "candidate_mass default_config example_constants example_v0 example_posTrack example_negTrack = 0.5
   \<and> candidate_mass (default_config\<lparr>computeInvMassFromDaughters := True\<rparr>) example_constants example_v0
       example_posTrack example_negTrack
     = sqrt ((sqrt (0.5\<^sup>2 + 1\<^sup>2 + 0.5\<^sup>2 + 0.13957\<^sup>2) + sqrt ((-0.5)\<^sup>2 + 1\<^sup>2 + 0.25\<^sup>2 + 0.13957\<^sup>2))\<^sup>2
             - ((0.5 + (-0.5))\<^sup>2 + (1 + 1)\<^sup>2 + (0.5 + 0.25)\<^sup>2))
   \<and> (case processMC_v0 (default_config\<lparr>computeInvMassFromDaughters := True\<rparr>) example_constants
          example_collision example_v0 empty_registries of
        Inl e \<Rightarrow> False
      | Inr r \<Rightarrow>
          list_ex (\<lambda>f. fst f = h2_massPosPtRes \<and>
              hd (snd f) = Some (sqrt ((sqrt (0.5\<^sup>2 + 1\<^sup>2 + 0.5\<^sup>2 + 0.13957\<^sup>2)
                                         + sqrt ((-0.5)\<^sup>2 + 1\<^sup>2 + 0.25\<^sup>2 + 0.13957\<^sup>2))\<^sup>2
                                       - ((0.5 + (-0.5))\<^sup>2 + (1 + 1)\<^sup>2 + (0.5 + 0.25)\<^sup>2))))
            (rK0sDauResolution r))"
proof -
  let ?on = "default_config\<lparr>computeInvMassFromDaughters := True\<rparr>"
  let ?M = "sqrt ((sqrt (0.5\<^sup>2 + 1\<^sup>2 + 0.5\<^sup>2 + 0.13957\<^sup>2) + sqrt ((-0.5)\<^sup>2 + 1\<^sup>2 + 0.25\<^sup>2 + 0.13957\<^sup>2))\<^sup>2
             - ((0.5 + (-0.5))\<^sup>2 + (1 + 1)\<^sup>2 + (0.5 + 0.25)\<^sup>2)) :: real"
  have acc: "acceptV0 default_config example_constants example_v0 (negTrack example_v0) (posTrack example_v0)
      example_collision = Inr True"
    "acceptV0 ?on example_constants example_v0 (negTrack example_v0) (posTrack example_v0)
      example_collision = Inr True"
    by (simp_all add: acceptV0_eval_defs example_defs)
  have tr: "posTrack example_v0 = example_posTrack" "negTrack example_v0 = example_negTrack"
    by (simp_all add: example_v0_def)
  have off: "0.5 = (if computeInvMassFromDaughters default_config
       then sqrt ((sqrt ((px example_posTrack)\<^sup>2 + (py example_posTrack)\<^sup>2 + (pz example_posTrack)\<^sup>2
                     + (MassPionCharged example_constants)\<^sup>2)
                   + sqrt ((px example_negTrack)\<^sup>2 + (py example_negTrack)\<^sup>2 + (pz example_negTrack)\<^sup>2
                     + (MassPionCharged example_constants)\<^sup>2))\<^sup>2
                  - ((px example_posTrack + px example_negTrack)\<^sup>2 + (py example_posTrack + py example_negTrack)\<^sup>2
                     + (pz example_posTrack + pz example_negTrack)\<^sup>2))
       else mK0Short example_v0)"
    by (simp add: default_config_def example_v0_def)
  have on: "?M = (if computeInvMassFromDaughters ?on
       then sqrt ((sqrt ((px example_posTrack)\<^sup>2 + (py example_posTrack)\<^sup>2 + (pz example_posTrack)\<^sup>2
                     + (MassPionCharged example_constants)\<^sup>2)
                   + sqrt ((px example_negTrack)\<^sup>2 + (py example_negTrack)\<^sup>2 + (pz example_negTrack)\<^sup>2
                     + (MassPionCharged example_constants)\<^sup>2))\<^sup>2
                  - ((px example_posTrack + px example_negTrack)\<^sup>2 + (py example_posTrack + py example_negTrack)\<^sup>2
                     + (pz example_posTrack + pz example_negTrack)\<^sup>2))
       else mK0Short example_v0)"
    by (simp add: default_config_def example_posTrack_def example_negTrack_def example_constants_def)
  have matched: "daughters_matched example_v0"
    by (simp add: daughters_matched_def example_defs)
  note t_off = mass_value_filled [OF acc(1) tr [symmetric] off, of empty_registries]
  note t_on = mass_value_filled [OF acc(2) tr [symmetric] on, of empty_registries]
  from t_off have a: "candidate_mass default_config example_constants example_v0 example_posTrack example_negTrack = 0.5"
    unfolding tr by (rule conjunct1)
  from t_on have b: "candidate_mass ?on example_constants example_v0 example_posTrack example_negTrack = ?M"
    unfolding tr by (rule conjunct1)
  from t_on [THEN conjunct2, THEN conjunct2, THEN conjunct1, THEN mp, OF matched]
  obtain rs ds where r: "processMC_v0 ?on example_constants example_collision example_v0 empty_registries =
          Inr \<lparr>rK0sResolution = rK0sResolution empty_registries @ rs,
               rK0sDauResolution = rK0sDauResolution empty_registries @ ds\<rparr>"
    and there: "{h2_massPosPtRes, h2_massNegPtRes} \<subseteq> fst ` set ds"
    and val: "\<forall>(h, xs) \<in> set rs \<union> set ds. h \<in> mass_histograms \<longrightarrow> xs \<noteq> [] \<and> hd xs = Some ?M"
    by blast
  from there obtain xs where xs: "(h2_massPosPtRes, xs) \<in> set ds"
    by auto
  with val have "hd xs = Some ?M"
    by (auto simp: mass_histograms_def)
  with xs have "list_ex (\<lambda>f. fst f = h2_massPosPtRes \<and> hd (snd f) = Some ?M) ds"
    unfolding list_ex_iff by force
  then have c: "case processMC_v0 ?on example_constants example_collision example_v0 empty_registries of
        Inl e \<Rightarrow> False
      | Inr r \<Rightarrow> list_ex (\<lambda>f. fst f = h2_massPosPtRes \<and> hd (snd f) = Some ?M) (rK0sDauResolution r)"
    unfolding r by (simp add: empty_registries_def)
  from a b c show ?thesis
    by (intro conjI)
qed

text \<open>
  C6. A candidate is in the filtered candidate table exactly when the magnitudes of both
  daughters' impact parameters are strictly greater than their configured minima, the
  DCA between the daughters is strictly less than its maximum and the cosine of the
  pointing angle is strictly greater than its minimum; a candidate on one of the four
  boundaries is left out. A collision in the filtered collision table has, when the
  event selection is on, its \<open>sel8\<close> flag set, and a vertex z of magnitude strictly
  less than the cut; a collision on that boundary is left out. (The filter as written is
  \<open>eventSelection && sel8\<close>: a collision passes it only with the event selection on.)
\<close>

theorem prefilter_strict:
  "(v0 \<in> set (Filtered_V0Datas cfg fullV0s) \<longleftrightarrow>
      v0 \<in> set fullV0s \<and>
      \<bar>dcapostopv v0\<bar> > v0setting_dcapostopv cfg \<and> \<bar>dcanegtopv v0\<bar> > v0setting_dcanegtopv cfg \<and>
      dcaV0daughters v0 < v0setting_dcav0dau cfg \<and> v0cosPA v0 > v0setting_cospa cfg) \<and>
   (\<bar>dcapostopv v0\<bar> = v0setting_dcapostopv cfg \<or> \<bar>dcanegtopv v0\<bar> = v0setting_dcanegtopv cfg \<or>
    dcaV0daughters v0 = v0setting_dcav0dau cfg \<or> v0cosPA v0 = v0setting_cospa cfg \<longrightarrow>
      v0 \<notin> set (Filtered_V0Datas cfg fullV0s)) \<and>
   (coll \<in> set (Filtered_SelectedCollisions cfg colls) \<longrightarrow>
      (eventSelection cfg \<longrightarrow> sel8 coll) \<and> \<bar>posZ coll\<bar> < cutzvertex cfg) \<and>
   (coll \<in> set (Filtered_SelectedCollisions cfg colls) \<longleftrightarrow>
      coll \<in> set colls \<and> eventSelection cfg \<and> sel8 coll \<and> \<bar>posZ coll\<bar> < cutzvertex cfg) \<and>
   (\<bar>posZ coll\<bar> = cutzvertex cfg \<longrightarrow> coll \<notin> set (Filtered_SelectedCollisions cfg colls))"
  by (auto simp: Filtered_V0Datas_def Filtered_SelectedCollisions_def v0Filter_def eventFilter_def
      posZFilter_def)

text \<open>
  The theorem at the example candidate and collision, which pass, and at copies on the
  boundary (impact parameter 0.1 against 0.1, vertex z -10 against 10), which do not.
\<close>

theorem prefilter_strict_witness:
  "example_v0 \<in> set (Filtered_V0Datas default_config [example_v0\<lparr>dcapostopv := 0.1\<rparr>, example_v0])
   \<and> example_v0\<lparr>dcapostopv := 0.1\<rparr>
       \<notin> set (Filtered_V0Datas default_config [example_v0\<lparr>dcapostopv := 0.1\<rparr>, example_v0])
   \<and> example_collision
       \<in> set (Filtered_SelectedCollisions default_config [example_collision\<lparr>posZ := -10\<rparr>, example_collision])
   \<and> example_collision\<lparr>posZ := -10\<rparr>
       \<notin> set (Filtered_SelectedCollisions default_config [example_collision\<lparr>posZ := -10\<rparr>, example_collision])"
proof -
  let ?vs = "[example_v0\<lparr>dcapostopv := 0.1\<rparr>, example_v0]"
  let ?cs = "[example_collision\<lparr>posZ := -10\<rparr>, example_collision]"
  have "example_v0 \<in> set ?vs \<and>
      \<bar>dcapostopv example_v0\<bar> > v0setting_dcapostopv default_config \<and>
      \<bar>dcanegtopv example_v0\<bar> > v0setting_dcanegtopv default_config \<and>
      dcaV0daughters example_v0 < v0setting_dcav0dau default_config \<and>
      v0cosPA example_v0 > v0setting_cospa default_config"
    by (simp add: example_v0_def default_config_def)
  with prefilter_strict [of example_v0 default_config ?vs, THEN conjunct1]
  have a: "example_v0 \<in> set (Filtered_V0Datas default_config ?vs)"
    by (rule iffD2)
  have "\<bar>dcapostopv (example_v0\<lparr>dcapostopv := 0.1\<rparr>)\<bar> = v0setting_dcapostopv default_config \<or>
      \<bar>dcanegtopv (example_v0\<lparr>dcapostopv := 0.1\<rparr>)\<bar> = v0setting_dcanegtopv default_config \<or>
      dcaV0daughters (example_v0\<lparr>dcapostopv := 0.1\<rparr>) = v0setting_dcav0dau default_config \<or>
      v0cosPA (example_v0\<lparr>dcapostopv := 0.1\<rparr>) = v0setting_cospa default_config"
    by (simp add: default_config_def)
  with prefilter_strict [of "example_v0\<lparr>dcapostopv := 0.1\<rparr>" default_config ?vs,
      THEN conjunct2, THEN conjunct1]
  have b: "example_v0\<lparr>dcapostopv := 0.1\<rparr> \<notin> set (Filtered_V0Datas default_config ?vs)"
    by (rule mp)
  have "example_collision \<in> set ?cs \<and> eventSelection default_config \<and> sel8 example_collision \<and>
      \<bar>posZ example_collision\<bar> < cutzvertex default_config"
    by (simp add: example_collision_def default_config_def)
  with prefilter_strict [of _ default_config _ example_collision ?cs,
      THEN conjunct2, THEN conjunct2, THEN conjunct2, THEN conjunct1]
  have c: "example_collision \<in> set (Filtered_SelectedCollisions default_config ?cs)"
    by (rule iffD2)
  have "\<bar>posZ (example_collision\<lparr>posZ := -10\<rparr>)\<bar> = cutzvertex default_config"
    by (simp add: default_config_def)
  with prefilter_strict [of _ default_config _ "example_collision\<lparr>posZ := -10\<rparr>" ?cs,
      THEN conjunct2, THEN conjunct2, THEN conjunct2, THEN conjunct2]
  have d: "example_collision\<lparr>posZ := -10\<rparr> \<notin> set (Filtered_SelectedCollisions default_config ?cs)"
    by (rule mp)
  from a b c d show ?thesis
    by (intro conjI)
qed

end
